theory Spec2Isabelle
  imports Main "HOL-Library.AList" "HOL-Library.Code_Target_Nat"
begin

section \<open>JavaScript values\<close>

text \<open>
  The persistence layer of the chart component moves overlay data between three
  places: the live overlay objects owned by the charting engine, plain objects
  that are safe to store (\<open>SerializedOverlay\<close>), and JSON text in the browser's
  \<open>localStorage\<close>. TypeScript types are erased at run time, and
  \<open>loadOverlaysFromLocalStorage\<close> returns whatever \<open>JSON.parse\<close> produced, so
  stored data is modelled as a JavaScript value. Numbers are kept abstract in the
  type parameter \<open>'n\<close>: nothing in this code computes with them.

  An object is the list of its own properties in insertion order; a well-formed
  object has pairwise distinct property names.
\<close>

datatype 'n jsval =
    JUndefined
  | JNull
  | JBool bool
  | JNum 'n
  | JStr string
  | JArr "'n jsval list"
  | JObj "(string \<times> 'n jsval) list"

datatype js_error =
    TypeError
  | SyntaxError
  | QuotaExceededError
  | SecurityError
  | Rejected string

text \<open>
  The property read \<open>data.k\<close> of a value that is neither \<open>null\<close> nor
  \<open>undefined\<close>. The code only reads the nine overlay field names, none of which
  is a property of a primitive or of an array, so on those the read is
  \<open>undefined\<close>.
\<close>

fun get :: "'n jsval \<Rightarrow> string \<Rightarrow> 'n jsval" where
  "get (JObj ps) k = (case map_of ps k of None \<Rightarrow> JUndefined | Some v \<Rightarrow> v)"
| "get _ k = JUndefined"

text \<open>
  The object spread \<open>{ ...p }\<close>: a new object that receives the own properties
  of \<open>p\<close> one by one, in order; defining a property that is already there
  replaces its value in place.
\<close>

definition obj_spread :: "(string \<times> 'n jsval) list \<Rightarrow> (string \<times> 'n jsval) list" where
  "obj_spread p = foldl (\<lambda>acc (k, v). AList.update k v acc) [] p"

section \<open>Overlay serializer and deserializer\<close>

text \<open>
  A live overlay, as far as the persistence code reads it. The engine's overlay
  object has further fields (callbacks, drawing progress); they live in the
  record's extension slot and are never read. \<open>mode\<close> is the string value of
  the engine's mode enumeration; \<open>extendData\<close> and \<open>styles\<close> are arbitrary
  values (\<open>undefined\<close> when absent). A point is an object, with whatever
  properties the engine has put on it.
\<close>

record 'n Overlay =
  id' :: string
  groupId :: string
  name :: string
  points :: "(string \<times> 'n jsval) list list"
  lock :: bool
  visible :: bool
  mode :: string
  extendData :: "'n jsval"
  styles :: "'n jsval"

definition serializeOverlay :: "('n, 'z) Overlay_scheme \<Rightarrow> 'n jsval" where
  "serializeOverlay overlay = JObj
     [(''id'', JStr (id' overlay)),
      (''groupId'', JStr (groupId overlay)),
      (''name'', JStr (name overlay)),
      (''points'', JArr (map (\<lambda>p. JObj (obj_spread p)) (points overlay))),
      (''lock'', JBool (lock overlay)),
      (''visible'', JBool (visible overlay)),
      (''mode'', JStr (mode overlay)),
      (''extendData'', extendData overlay),
      (''styles'', styles overlay)]"

text \<open>
  \<open>deserializeOverlay\<close> reads nine properties of its argument and checks
  nothing. Reading a property of \<open>null\<close> or \<open>undefined\<close> throws a
  \<open>TypeError\<close>; a missing property reads as \<open>undefined\<close>.
\<close>

definition deserializeOverlay :: "'n jsval \<Rightarrow> js_error + 'n jsval" where
  "deserializeOverlay data =
     (if data = JUndefined \<or> data = JNull then Inl TypeError
      else Inr (JObj
        [(''id'', get data ''id''),
         (''groupId'', get data ''groupId''),
         (''name'', get data ''name''),
         (''points'', get data ''points''),
         (''lock'', get data ''lock''),
         (''visible'', get data ''visible''),
         (''mode'', get data ''mode''),
         (''extendData'', get data ''extendData''),
         (''styles'', get data ''styles'')]))"

section \<open>Local store adapter\<close>

text \<open>
  The browser's \<open>localStorage\<close>: string keys to string values. Reaching the
  storage object throws a \<open>SecurityError\<close> when the browser denies access to
  it, and \<open>setItem\<close> throws a \<open>QuotaExceededError\<close> when the new contents
  would not fit.
\<close>

record storage =
  entries :: "(string \<times> string) list"
  accessible :: bool
  quota :: nat

definition storage_size :: "(string \<times> string) list \<Rightarrow> nat" where
  "storage_size es = sum_list (map (\<lambda>(k, v). length k + length v) es)"

definition getItem :: "string \<Rightarrow> storage \<Rightarrow> string option" where
  "getItem key ls = map_of (entries ls) key"

definition setItem :: "string \<Rightarrow> string \<Rightarrow> storage \<Rightarrow> js_error + storage" where
  "setItem key v ls =
     (let es = AList.update key v (entries ls)
      in if storage_size es \<le> quota ls then Inr (ls\<lparr>entries := es\<rparr>)
         else Inl QuotaExceededError)"

definition removeItem :: "string \<Rightarrow> storage \<Rightarrow> storage" where
  "removeItem key ls = ls\<lparr>entries := AList.delete key (entries ls)\<rparr>"

text \<open>
  What the code sees of the browser: the storage and the console, to which
  \<open>console.error\<close> appends a message and the error caught.
\<close>

record browser =
  localStorage :: storage
  console :: "(string \<times> js_error) list"

definition window_localStorage :: "browser \<Rightarrow> js_error + storage" where
  "window_localStorage b =
     (if accessible (localStorage b) then Inr (localStorage b) else Inl SecurityError)"

definition console_error :: "string \<Rightarrow> js_error \<Rightarrow> browser \<Rightarrow> browser" where
  "console_error msg e b = b\<lparr>console := console b @ [(msg, e)]\<rparr>"

text \<open>
  \<open>JSON.stringify\<close> and \<open>JSON.parse\<close> belong to the JavaScript runtime, not
  to this code; the adapter takes them as a parameter. Either may throw.
\<close>

record 'n JSON =
  stringify :: "'n jsval \<Rightarrow> js_error + string"
  parse :: "string \<Rightarrow> js_error + 'n jsval"

text \<open>
  \<open>try { ... } catch (e) { ... }\<close> over a computation that changes the browser
  state: what the body did before it threw stays done.
\<close>

definition try_catch ::
  "('s \<Rightarrow> (js_error + 'a) \<times> 's) \<Rightarrow> (js_error \<Rightarrow> 's \<Rightarrow> (js_error + 'a) \<times> 's) \<Rightarrow>
   's \<Rightarrow> (js_error + 'a) \<times> 's" where
  "try_catch body handler s =
     (case body s of
        (Inl e, s') \<Rightarrow> handler e s'
      | (Inr a, s') \<Rightarrow> (Inr a, s'))"

definition STORAGE_PREFIX :: string where
  "STORAGE_PREFIX = ''klinecharts-pro-overlays''"

definition getStorageKey :: "string \<Rightarrow> string" where
  "getStorageKey symbol = STORAGE_PREFIX @ ''-'' @ symbol"

definition saveOverlaysToLocalStorage ::
  "'n JSON \<Rightarrow> string \<Rightarrow> 'n jsval list \<Rightarrow> browser \<Rightarrow> (js_error + unit) \<times> browser" where
  "saveOverlaysToLocalStorage J symbol overlays =
     try_catch
       (\<lambda>b. let key = getStorageKey symbol in
          case window_localStorage b of
            Inl e \<Rightarrow> (Inl e, b)
          | Inr ls \<Rightarrow>
             (case stringify J (JArr overlays) of
                Inl e \<Rightarrow> (Inl e, b)
              | Inr text \<Rightarrow>
                 (case setItem key text ls of
                    Inl e \<Rightarrow> (Inl e, b)
                  | Inr ls' \<Rightarrow> (Inr (), b\<lparr>localStorage := ls'\<rparr>))))
       (\<lambda>e b. (Inr (), console_error ''Failed to save overlays to localStorage:'' e b))"

text \<open>
  In \<open>loadOverlaysFromLocalStorage\<close> the \<open>try\<close> block returns the parsed value
  when \<open>data\<close> is truthy, that is, a non-empty string; otherwise, and after a
  caught error, control reaches the final \<open>return []\<close>. The block's result is
  \<open>Some\<close> of the value returned from inside it, or \<open>None\<close> when it fell
  through.
\<close>

definition loadOverlaysFromLocalStorage ::
  "'n JSON \<Rightarrow> string \<Rightarrow> browser \<Rightarrow> (js_error + 'n jsval) \<times> browser" where
  "loadOverlaysFromLocalStorage J symbol b0 =
     (case try_catch
        (\<lambda>b. let key = getStorageKey symbol in
           case window_localStorage b of
             Inl e \<Rightarrow> (Inl e, b)
           | Inr ls \<Rightarrow>
              (case getItem key ls of
                 None \<Rightarrow> (Inr None, b)
               | Some data \<Rightarrow>
                  if data \<noteq> [] then
                    (case parse J data of
                       Inl e \<Rightarrow> (Inl e, b)
                     | Inr v \<Rightarrow> (Inr (Some v), b))
                  else (Inr None, b)))
        (\<lambda>e b. (Inr None, console_error ''Failed to load overlays from localStorage:'' e b))
        b0 of
        (Inl e, b) \<Rightarrow> (Inl e, b)
      | (Inr (Some v), b) \<Rightarrow> (Inr v, b)
      | (Inr None, b) \<Rightarrow> (Inr (JArr []), b))"

definition clearOverlaysFromLocalStorage ::
  "string \<Rightarrow> browser \<Rightarrow> (js_error + unit) \<times> browser" where
  "clearOverlaysFromLocalStorage symbol =
     try_catch
       (\<lambda>b. let key = getStorageKey symbol in
          case window_localStorage b of
            Inl e \<Rightarrow> (Inl e, b)
          | Inr ls \<Rightarrow> (Inr (), b\<lparr>localStorage := removeItem key ls\<rparr>))
       (\<lambda>e b. (Inr (), console_error ''Failed to clear overlays from localStorage:'' e b))"

section \<open>Cloud sync provider and storage facade\<close>

text \<open>
  The provider is supplied by the embedding application: two operations on some
  remote state \<open>'c\<close>, each of which may reject; a rejection propagates to
  the caller as a thrown error.
\<close>

record ('n, 'c) CloudSyncProvider =
  upload :: "string \<Rightarrow> 'n jsval \<Rightarrow> 'c \<Rightarrow> (js_error + unit) \<times> 'c"
  download :: "string \<Rightarrow> 'c \<Rightarrow> (js_error + 'n jsval list) \<times> 'c"

record ('n, 'c) OverlayStorage =
  symbol :: string
  cloudSyncProvider :: "('n, 'c) CloudSyncProvider option"

definition OverlayStorage_new ::
  "string \<Rightarrow> ('n, 'c) CloudSyncProvider option \<Rightarrow> ('n, 'c) OverlayStorage" where
  "OverlayStorage_new symb provider = \<lparr>symbol = symb, cloudSyncProvider = provider\<rparr>"

definition setSymbol :: "string \<Rightarrow> ('n, 'c) OverlayStorage \<Rightarrow> ('n, 'c) OverlayStorage" where
  "setSymbol symb this = this\<lparr>symbol := symb\<rparr>"

definition OverlayStorage_save ::
  "'n JSON \<Rightarrow> ('n, 'c) OverlayStorage \<Rightarrow> 'n jsval list \<Rightarrow> browser \<Rightarrow> (js_error + unit) \<times> browser" where
  "OverlayStorage_save J this overlays = saveOverlaysToLocalStorage J (symbol this) overlays"

definition OverlayStorage_load ::
  "'n JSON \<Rightarrow> ('n, 'c) OverlayStorage \<Rightarrow> browser \<Rightarrow> (js_error + 'n jsval) \<times> browser" where
  "OverlayStorage_load J this = loadOverlaysFromLocalStorage J (symbol this)"

definition OverlayStorage_clear ::
  "('n, 'c) OverlayStorage \<Rightarrow> browser \<Rightarrow> (js_error + unit) \<times> browser" where
  "OverlayStorage_clear this = clearOverlaysFromLocalStorage (symbol this)"

text \<open>
  The two sync methods are asynchronous. An \<open>await\<close> suspends the method:
  other tasks of the event loop run before it resumes, and they may call
  \<open>setSymbol\<close> on the facade or use the storage. The state of a sync is the
  facade, the remote state and the browser; \<open>pending\<close> is what the other
  tasks do to it while the provider's promise is pending. \<open>syncToCloud\<close>
  reads \<open>this.symbol\<close> once, before its only \<open>await\<close>. \<open>syncFromCloud\<close>
  reads it for the download and a second time after the \<open>await\<close>, inside
  \<open>this.save\<close>.
\<close>

type_synonym ('n, 'c) sync_state = "('n, 'c) OverlayStorage \<times> 'c \<times> browser"

definition syncToCloud ::
  "'n JSON \<Rightarrow> (('n, 'c) sync_state \<Rightarrow> ('n, 'c) sync_state) \<Rightarrow> ('n, 'c) sync_state \<Rightarrow>
   (js_error + unit) \<times> ('n, 'c) sync_state" where
  "syncToCloud J pending = (\<lambda>(this, c, b).
     case cloudSyncProvider this of
       None \<Rightarrow> (Inr (), this, c, b)
     | Some provider \<Rightarrow>
        (case OverlayStorage_load J this b of
           (Inl e, b') \<Rightarrow> (Inl e, this, c, b')
         | (Inr overlays, b') \<Rightarrow>
            (case upload provider (symbol this) overlays c of
               (r, c') \<Rightarrow> (r, pending (this, c', b')))))"

definition syncFromCloud ::
  "'n JSON \<Rightarrow> (('n, 'c) sync_state \<Rightarrow> ('n, 'c) sync_state) \<Rightarrow> ('n, 'c) sync_state \<Rightarrow>
   (js_error + 'n jsval list) \<times> ('n, 'c) sync_state" where
  "syncFromCloud J pending = (\<lambda>(this, c, b).
     case cloudSyncProvider this of
       None \<Rightarrow> (Inr [], this, c, b)
     | Some provider \<Rightarrow>
        (case download provider (symbol this) c of
           (r, c') \<Rightarrow>
             (case pending (this, c', b) of
                (this', c'', b') \<Rightarrow>
                  (case r of
                     Inl e \<Rightarrow> (Inl e, this', c'', b')
                   | Inr overlays \<Rightarrow>
                      (case OverlayStorage_save J this' overlays b' of
                         (Inl e, b'') \<Rightarrow> (Inl e, this', c'', b'')
                       | (Inr u, b'') \<Rightarrow> (Inr overlays, this', c'', b''))))))"

section \<open>Overlay lifecycle in the chart component\<close>

text \<open>
  Modelled from the spec: the charting engine is an external library, consumed
  through \<open>createOverlay\<close>, \<open>removeOverlay\<close>, \<open>overrideOverlay\<close> and
  \<open>getOverlayById\<close>. Here a chart is the list of overlays it holds.
  \<open>getOverlayById\<close> finds the overlay with that id or returns \<open>null\<close>;
  \<open>removeOverlay()\<close> removes every overlay and \<open>removeOverlay({ groupId })\<close>
  those of one group. \<open>createOverlay\<close>, which assigns ids and validates the
  request, is left to the engine: the component's functions take it as the
  parameter \<open>create\<close>. It returns an id, \<open>null\<close>, or an array of ids and
  \<open>null\<close>s.
\<close>

datatype create_result =
    CreatedId string
  | CreatedNull
  | CreatedArray "string option list"

definition getOverlayById :: "string \<Rightarrow> 'n Overlay list \<Rightarrow> 'n Overlay option" where
  "getOverlayById i chart = find (\<lambda>overlay. id' overlay = i) chart"

definition removeOverlay :: "string option \<Rightarrow> 'n Overlay list \<Rightarrow> 'n Overlay list" where
  "removeOverlay sel chart =
     (case sel of
        None \<Rightarrow> []
      | Some g \<Rightarrow> filter (\<lambda>overlay. groupId overlay \<noteq> g) chart)"

text \<open>
  The component's closure variables that the persistence code touches, with the
  browser it runs in. \<open>overlayMap\<close> is a JavaScript \<open>Map\<close>: insertion-ordered,
  \<open>set\<close> on a key that is present replaces the value in place. Its values
  are references to the engine's overlay objects; the model holds each object's
  value as of the last \<open>set\<close>, and the refresh loop of \<open>saveOverlays\<close>
  brings every entry that the engine still has up to date before anything is
  serialized. \<open>widget\<close> is \<open>null\<close> until the component is mounted.
\<close>

record ('n, 'c) component =
  overlayPersistenceEnabled :: bool
  overlayStorage :: "('n, 'c) OverlayStorage option"
  overlayMap :: "(string \<times> 'n Overlay) list"
  autoSaveIntervalId :: "nat option"
  widget :: "'n Overlay list option"
  loading :: bool
  window :: browser

text \<open>Statement sequencing and \<open>Array.prototype.forEach\<close> with a body that may throw.\<close>

definition and_then ::
  "('s \<Rightarrow> (js_error + unit) \<times> 's) \<Rightarrow> ('s \<Rightarrow> (js_error + 'a) \<times> 's) \<Rightarrow> 's \<Rightarrow> (js_error + 'a) \<times> 's" where
  "and_then f g s = (case f s of (Inl e, s') \<Rightarrow> (Inl e, s') | (Inr u, s') \<Rightarrow> g s')"

fun forEach ::
  "('a \<Rightarrow> 's \<Rightarrow> (js_error + unit) \<times> 's) \<Rightarrow> 'a list \<Rightarrow> 's \<Rightarrow> (js_error + unit) \<times> 's" where
  "forEach f [] s = (Inr (), s)"
| "forEach f (x # xs) s = (case f x s of (Inl e, s') \<Rightarrow> (Inl e, s') | (Inr u, s') \<Rightarrow> forEach f xs s')"

text \<open>
  The refresh loop of \<open>saveOverlays\<close>: \<open>overlayMap.forEach\<close> visits the keys
  in order; a key whose overlay the engine still has gets the engine's current
  object, any other key is left as it is.
\<close>

definition refresh :: "'n Overlay list \<Rightarrow> (string \<times> 'n Overlay) list \<Rightarrow> (string \<times> 'n Overlay) list" where
  "refresh chart m =
     foldl (\<lambda>acc i. case getOverlayById i chart of
                       None \<Rightarrow> acc
                     | Some overlay \<Rightarrow> AList.update i overlay acc)
       m (map fst m)"

definition saveOverlays ::
  "'n JSON \<Rightarrow> ('n, 'c) component \<Rightarrow> (js_error + unit) \<times> ('n, 'c) component" where
  "saveOverlays J st =
     (case (overlayPersistenceEnabled st, overlayStorage st, widget st) of
        (True, Some storage, Some chart) \<Rightarrow>
          let m = refresh chart (overlayMap st);
              overlays = map serializeOverlay (map snd m);
              (r, b) = OverlayStorage_save J storage overlays (window st)
          in (r, st\<lparr>overlayMap := m, window := b\<rparr>)
      | _ \<Rightarrow> (Inr (), st))"

definition autoSaveTick ::
  "'n JSON \<Rightarrow> ('n, 'c) component \<Rightarrow> (js_error + unit) \<times> ('n, 'c) component" where
  "autoSaveTick J st = (if overlayMap st \<noteq> [] then saveOverlays J st else (Inr (), st))"

definition startAutoSave :: "nat \<Rightarrow> ('n, 'c) component \<Rightarrow> ('n, 'c) component" where
  "startAutoSave handle st =
     (if overlayPersistenceEnabled st \<and> (autoSaveIntervalId st = None \<or> autoSaveIntervalId st = Some 0)
      then st\<lparr>autoSaveIntervalId := Some handle\<rparr> else st)"

definition stopAutoSave :: "('n, 'c) component \<Rightarrow> ('n, 'c) component" where
  "stopAutoSave st = st\<lparr>autoSaveIntervalId := None\<rparr>"

definition trackOverlay :: "string \<Rightarrow> ('n, 'c) component \<Rightarrow> ('n, 'c) component" where
  "trackOverlay i st =
     (case (overlayPersistenceEnabled st, widget st) of
        (True, Some chart) \<Rightarrow>
          (case getOverlayById i chart of
             None \<Rightarrow> st
           | Some overlay \<Rightarrow> st\<lparr>overlayMap := AList.update i overlay (overlayMap st)\<rparr>)
      | _ \<Rightarrow> st)"

definition untrackOverlay ::
  "'n JSON \<Rightarrow> string \<Rightarrow> ('n, 'c) component \<Rightarrow> (js_error + unit) \<times> ('n, 'c) component" where
  "untrackOverlay J i st =
     (if overlayPersistenceEnabled st
      then saveOverlays J (st\<lparr>overlayMap := AList.delete i (overlayMap st)\<rparr>)
      else (Inr (), st))"

definition clearOverlays ::
  "'n JSON \<Rightarrow> ('n, 'c) component \<Rightarrow> (js_error + unit) \<times> ('n, 'c) component" where
  "clearOverlays J st =
     (if overlayPersistenceEnabled st
      then saveOverlays J (st\<lparr>overlayMap := []\<rparr>)
      else (Inr (), st))"

text \<open>
  \<open>loadOverlays\<close> calls \<open>forEach\<close> on whatever \<open>load\<close> returned; on a value
  that is not an array that call throws a \<open>TypeError\<close>. For each record the
  engine is asked to create an overlay; of the ids it returns, \<open>null\<close>s and an
  empty string are dropped, and each remaining id whose overlay the engine has
  is put into the map.
\<close>

definition created_ids :: "create_result \<Rightarrow> string list" where
  "created_ids result =
     (case result of
        CreatedArray rs \<Rightarrow> map the (filter (\<lambda>r. r \<noteq> None) rs)
      | CreatedId i \<Rightarrow> (if i \<noteq> [] then [i] else [])
      | CreatedNull \<Rightarrow> [])"

definition loadOverlay ::
  "('n jsval \<Rightarrow> 'n Overlay list \<Rightarrow> create_result \<times> 'n Overlay list) \<Rightarrow> 'n jsval \<Rightarrow>
   ('n, 'c) component \<Rightarrow> (js_error + unit) \<times> ('n, 'c) component" where
  "loadOverlay create overlayData st =
     (case deserializeOverlay overlayData of
        Inl e \<Rightarrow> (Inl e, st)
      | Inr overlayCreate \<Rightarrow>
         (case widget st of
            None \<Rightarrow> (Inl TypeError, st)
          | Some chart \<Rightarrow>
              let (result, chart') = create overlayCreate chart;
                  ids = created_ids result
              in (Inr (),
                  foldl (\<lambda>s i. case getOverlayById i chart' of
                                  None \<Rightarrow> s
                                | Some overlay \<Rightarrow> s\<lparr>overlayMap := AList.update i overlay (overlayMap s)\<rparr>)
                    (st\<lparr>widget := Some chart'\<rparr>) ids)))"

definition loadOverlays ::
  "'n JSON \<Rightarrow> ('n jsval \<Rightarrow> 'n Overlay list \<Rightarrow> create_result \<times> 'n Overlay list) \<Rightarrow>
   ('n, 'c) component \<Rightarrow> (js_error + unit) \<times> ('n, 'c) component" where
  "loadOverlays J create st =
     (case (overlayPersistenceEnabled st, overlayStorage st, widget st) of
        (True, Some storage, Some chart) \<Rightarrow>
          (case OverlayStorage_load J storage (window st) of
             (Inl e, b) \<Rightarrow> (Inl e, st\<lparr>window := b\<rparr>)
           | (Inr overlays, b) \<Rightarrow>
              (case overlays of
                 JArr items \<Rightarrow> forEach (loadOverlay create) items (st\<lparr>window := b\<rparr>)
               | _ \<Rightarrow> (Inl TypeError, st\<lparr>window := b\<rparr>)))
      | _ \<Rightarrow> (Inr (), st))"

text \<open>
  The drawing bar's remove handler: the ids of the tracked overlays of the group
  are collected first, the engine removes the group, and each collected id is
  untracked.
\<close>

definition onRemoveClick ::
  "'n JSON \<Rightarrow> string \<Rightarrow> ('n, 'c) component \<Rightarrow> (js_error + unit) \<times> ('n, 'c) component" where
  "onRemoveClick J g st =
     (let overlaysToRemove = map id' (filter (\<lambda>overlay. groupId overlay = g) (map snd (overlayMap st)))
      in forEach (untrackOverlay J) overlaysToRemove
           (st\<lparr>widget := map_option (removeOverlay (Some g)) (widget st)\<rparr>))"

text \<open>
  The effect that runs when the symbol or the period changes. \<open>prev\<close> is the
  ticker the effect last ran for (\<open>None\<close> on the first run), \<open>s\<close> the current
  one; the effect returns the value it will receive as \<open>prev\<close> next time. The
  data feed calls are left out: they do not touch overlays. The effect's
  synchronous part is \<open>symbolEffect\<close>; \<open>symbolEffect_get\<close> is what its
  asynchronous function \<open>get\<close> does once the history data has arrived.
\<close>

definition symbolEffect ::
  "'n JSON \<Rightarrow> string option \<Rightarrow> string \<Rightarrow> ('n, 'c) component \<Rightarrow>
   (js_error + string option) \<times> ('n, 'c) component" where
  "symbolEffect J prev s st =
     (if \<not> loading st then
        and_then
          (\<lambda>st. case prev of
                  None \<Rightarrow> (Inr (), st)
                | Some p \<Rightarrow>
                    if overlayPersistenceEnabled st \<and> p \<noteq> s
                    then clearOverlays J (st\<lparr>widget := map_option (removeOverlay None) (widget st)\<rparr>)
                    else (Inr (), st))
          (\<lambda>st. let st1 = (if overlayPersistenceEnabled st
                           then st\<lparr>overlayStorage := map_option (setSymbol s) (overlayStorage st)\<rparr>
                           else st)
                in (Inr (Some s), st1\<lparr>loading := True\<rparr>))
          st
      else (Inr prev, st))"

definition symbolEffect_get ::
  "'n JSON \<Rightarrow> ('n jsval \<Rightarrow> 'n Overlay list \<Rightarrow> create_result \<times> 'n Overlay list) \<Rightarrow>
   string option \<Rightarrow> string \<Rightarrow> ('n, 'c) component \<Rightarrow> (js_error + unit) \<times> ('n, 'c) component" where
  "symbolEffect_get J create prev s =
     and_then
       (\<lambda>st. case prev of
               None \<Rightarrow> (Inr (), st)
             | Some p \<Rightarrow>
                 if overlayPersistenceEnabled st \<and> p \<noteq> s then loadOverlays J create st
                 else (Inr (), st))
       (\<lambda>st. (Inr (), st\<lparr>loading := False\<rparr>))"

section \<open>Reference environment for the examples\<close>

text \<open>
  A JSON codec for values whose numbers are integers: the compact text that
  \<open>JSON.stringify\<close> emits (no white space, properties whose value is
  \<open>undefined\<close> left out, \<open>undefined\<close> array elements written as \<open>null\<close>;
  the code only passes arrays at top level) and a parser for that text. In
  strings, the quote and the backslash are escaped; no other escape is read.
  The parser recurses on a bound that the length of the text always suffices
  for.
\<close>

function digits :: "int \<Rightarrow> string" where
  "digits n = (if n < 10 then [char_of (48 + n)] else digits (n div 10) @ [char_of (48 + n mod 10)])"
  by pat_completeness auto
termination
  by (relation "measure nat") auto

definition number_text :: "int \<Rightarrow> string" where
  "number_text i = (if i < 0 then CHR ''-'' # digits (- i) else digits i)"

definition quote :: "string \<Rightarrow> string" where
  "quote s =
     [CHR 0x22] @ concat (map (\<lambda>c. if c = CHR 0x22 \<or> c = CHR 0x5C then [CHR 0x5C, c] else [c]) s)
       @ [CHR 0x22]"

fun commas :: "string list \<Rightarrow> string" where
  "commas [] = []"
| "commas [x] = x"
| "commas (x # xs) = x @ '','' @ commas xs"

fun json_text :: "int jsval \<Rightarrow> string" where
  "json_text JUndefined = ''null''"
| "json_text JNull = ''null''"
| "json_text (JBool b) = (if b then ''true'' else ''false'')"
| "json_text (JNum i) = number_text i"
| "json_text (JStr s) = quote s"
| "json_text (JArr xs) = ''['' @ commas (map json_text xs) @ '']''"
| "json_text (JObj ps) =
     ''{'' @ commas (map (\<lambda>(k, v). quote k @ '':'' @ json_text v)
                      (filter (\<lambda>(k, v). v \<noteq> JUndefined) ps)) @ ''}''"

fun string_body :: "string \<Rightarrow> string \<Rightarrow> (string \<times> string) option" where
  "string_body acc [] = None"
| "string_body acc (c # cs) =
     (if c = CHR 0x22 then Some (rev acc, cs)
      else if c = CHR 0x5C then
        (case cs of
           [] \<Rightarrow> None
         | d # ds \<Rightarrow> if d = CHR 0x22 \<or> d = CHR 0x5C then string_body (d # acc) ds else None)
      else string_body (c # acc) cs)"

definition is_digit :: "char \<Rightarrow> bool" where
  "is_digit c \<longleftrightarrow> (48::int) \<le> of_char c \<and> (of_char c :: int) \<le> 57"

definition int_of_digits :: "string \<Rightarrow> int" where
  "int_of_digits ds = foldl (\<lambda>n c. 10 * n + (of_char c - 48)) 0 ds"

definition number_body :: "string \<Rightarrow> (int \<times> string) option" where
  "number_body s =
     (let (neg, r) = (case s of
                        [] \<Rightarrow> (False, s)
                      | c # cs \<Rightarrow> if c = CHR ''-'' then (True, cs) else (False, s));
          ds = takeWhile is_digit r
      in if ds = [] \<or> (length ds > 1 \<and> hd ds = CHR ''0'') then None
         else Some (if neg then - int_of_digits ds else int_of_digits ds,
                    dropWhile is_digit r))"

fun value_body :: "nat \<Rightarrow> string \<Rightarrow> (int jsval \<times> string) option"
  and elements_body :: "nat \<Rightarrow> int jsval list \<Rightarrow> string \<Rightarrow> (int jsval \<times> string) option"
  and members_body ::
    "nat \<Rightarrow> (string \<times> int jsval) list \<Rightarrow> string \<Rightarrow> (int jsval \<times> string) option" where
  "value_body 0 s = None"
| "value_body (Suc n) s =
     (if take 4 s = ''null'' then Some (JNull, drop 4 s)
      else if take 4 s = ''true'' then Some (JBool True, drop 4 s)
      else if take 5 s = ''false'' then Some (JBool False, drop 5 s)
      else if take 2 s = ''[]'' then Some (JArr [], drop 2 s)
      else if take 2 s = ''{}'' then Some (JObj [], drop 2 s)
      else if take 1 s = ''['' then elements_body n [] (drop 1 s)
      else if take 1 s = ''{'' then members_body n [] (drop 1 s)
      else if take 1 s = [CHR 0x22] then
        (case string_body [] (drop 1 s) of
           None \<Rightarrow> None
         | Some (str, r) \<Rightarrow> Some (JStr str, r))
      else (case number_body s of
              None \<Rightarrow> None
            | Some (i, r) \<Rightarrow> Some (JNum i, r)))"
| "elements_body 0 acc s = None"
| "elements_body (Suc n) acc s =
     (case value_body n s of
        None \<Rightarrow> None
      | Some (v, r) \<Rightarrow>
          if take 1 r = '','' then elements_body n (v # acc) (drop 1 r)
          else if take 1 r = '']'' then Some (JArr (rev (v # acc)), drop 1 r)
          else None)"
| "members_body 0 acc s = None"
| "members_body (Suc n) acc s =
     (if take 1 s = [CHR 0x22] then
        (case string_body [] (drop 1 s) of
           None \<Rightarrow> None
         | Some (k, r) \<Rightarrow>
             if take 1 r = '':'' then
               (case value_body n (drop 1 r) of
                  None \<Rightarrow> None
                | Some (v, r') \<Rightarrow>
                    if take 1 r' = '','' then members_body n (AList.update k v acc) (drop 1 r')
                    else if take 1 r' = ''}'' then Some (JObj (AList.update k v acc), drop 1 r')
                    else None)
             else None)
      else None)"

definition json_parse :: "string \<Rightarrow> js_error + int jsval" where
  "json_parse s =
     (case value_body (Suc (length s)) s of
        Some (v, []) \<Rightarrow> Inr v
      | _ \<Rightarrow> Inl SyntaxError)"

definition json :: "int JSON" where
  "json = \<lparr>stringify = (\<lambda>v. Inr (json_text v)), parse = json_parse\<rparr>"

section \<open>Predicates used in the statements\<close>

text \<open>
  A value survives the JSON round trip when \<open>JSON.stringify\<close> gives a
  non-empty text that \<open>JSON.parse\<close> reads back as the same value;
  \<open>text_size\<close> is the length of that text.
\<close>

definition json_roundtrips :: "'n JSON \<Rightarrow> 'n jsval \<Rightarrow> bool" where
  "json_roundtrips J v =
     (case stringify J v of
        Inl e \<Rightarrow> False
      | Inr t \<Rightarrow> t \<noteq> [] \<and> parse J t = Inr v)"

definition text_size :: "'n JSON \<Rightarrow> 'n jsval \<Rightarrow> nat" where
  "text_size J v = (case stringify J v of Inl e \<Rightarrow> 0 | Inr t \<Rightarrow> length t)"

text \<open>
  The tracked map is keyed by id when its keys are pairwise distinct and every
  entry is an overlay whose id is its key. A component is mounted, with
  persistence on, when it has its storage facade and its chart. The tracked
  overlays are persisted when the storage can be reached and the text under
  the facade's symbol is the JSON text of their serialization.
\<close>

definition keyed_by_id :: "(string \<times> 'n Overlay) list \<Rightarrow> bool" where
  "keyed_by_id m \<longleftrightarrow> distinct (map fst m) \<and> (\<forall>(i, overlay) \<in> set m. id' overlay = i)"

definition mounted :: "('n, 'c) component \<Rightarrow> ('n, 'c) OverlayStorage \<Rightarrow> 'n Overlay list \<Rightarrow> bool" where
  "mounted st storage chart \<longleftrightarrow>
     overlayPersistenceEnabled st \<and> overlayStorage st = Some storage \<and> widget st = Some chart
     \<and> keyed_by_id (overlayMap st)"

definition persisted ::
  "'n JSON \<Rightarrow> ('n, 'c) OverlayStorage \<Rightarrow> ('n, 'c) component \<Rightarrow> bool" where
  "persisted J storage st \<longleftrightarrow>
     accessible (localStorage (window st))
     \<and> (\<exists>t. stringify J (JArr (map serializeOverlay (map snd (overlayMap st)))) = Inr t
           \<and> getItem (getStorageKey (symbol storage)) (localStorage (window st)) = Some t)"

text \<open>The property names of each point of a serialized overlay.\<close>

definition point_names :: "'n jsval \<Rightarrow> string list list" where
  "point_names data =
     (case get data ''points'' of
        JArr ps \<Rightarrow> map (\<lambda>p. case p of JObj fs \<Rightarrow> map fst fs | _ \<Rightarrow> []) ps
      | _ \<Rightarrow> [])"

section \<open>Example overlays and sessions\<close>

text \<open>
  Two overlays: a horizontal line with one point that has only a value, and a
  segment whose second point carries a property beyond the three coordinates
  and whose third point is empty.
\<close>

definition line_o1 :: "int Overlay" where
  "line_o1 =
     \<lparr>id' = ''o1'', groupId = ''drawing_tools'', name = ''horizontalStraightLine'',
      points = [[(''value'', JNum 100)]],
      lock = False, visible = True, mode = ''normal'',
      extendData = JNull, styles = JNull\<rparr>"

definition segment_o2 :: "int Overlay" where
  "segment_o2 =
     \<lparr>id' = ''o2'', groupId = ''drawing_tools'', name = ''segment'',
      points = [[(''timestamp'', JNum 1700000000000), (''dataIndex'', JNum 12), (''value'', JNum 185)],
                [(''timestamp'', JNum 1700000600000), (''value'', JNum 190),
                 (''paneId'', JStr ''candle_pane'')],
                []],
      lock = True, visible = True, mode = ''weak_magnet'',
      extendData = JStr ''note'', styles = JNull\<rparr>"

definition fresh_browser :: browser where
  "fresh_browser =
     \<lparr>localStorage = \<lparr>entries = [], accessible = True, quota = 5000000\<rparr>, console = []\<rparr>"

text \<open>A cloud provider that keeps the uploaded records per symbol in memory.\<close>

definition memory_provider :: "(int, (string \<times> int jsval list) list) CloudSyncProvider" where
  "memory_provider =
     \<lparr>upload = (\<lambda>s v c. case v of
                           JArr xs \<Rightarrow> (Inr (), AList.update s xs c)
                         | _ \<Rightarrow> (Inl (Rejected ''bad request''), c)),
      download = (\<lambda>s c. case map_of c s of
                           None \<Rightarrow> (Inr [], c)
                         | Some xs \<Rightarrow> (Inr xs, c))\<rparr>"

text \<open>
  A facade for AAPL bound to that provider, a remote state that holds one
  record for AAPL and none for GOOGL, a task that calls \<open>setSymbol\<close> with
  GOOGL while a sync is pending, and a task that does nothing.
\<close>

definition aapl_facade :: "(int, (string \<times> int jsval list) list) OverlayStorage" where
  "aapl_facade = OverlayStorage_new ''AAPL'' (Some memory_provider)"

definition aapl_cloud :: "(string \<times> int jsval list) list" where
  "aapl_cloud = [(''AAPL'', [serializeOverlay line_o1])]"

definition switch_to_googl ::
  "(int, (string \<times> int jsval list) list) sync_state \<Rightarrow>
   (int, (string \<times> int jsval list) list) sync_state" where
  "switch_to_googl = (\<lambda>(this, c, b). (setSymbol ''GOOGL'' this, c, b))"

definition no_task ::
  "(int, (string \<times> int jsval list) list) sync_state \<Rightarrow>
   (int, (string \<times> int jsval list) list) sync_state" where
  "no_task = (\<lambda>st. st)"

text \<open>
  Browsers in which the adapter meets an error: the storage cannot be reached;
  the storage is full; the text under the AAPL key is not JSON. And a JSON
  whose \<open>stringify\<close> throws.
\<close>

definition denied_browser :: browser where
  "denied_browser =
     \<lparr>localStorage = \<lparr>entries = [], accessible = False, quota = 5000000\<rparr>, console = []\<rparr>"

definition full_browser :: browser where
  "full_browser =
     \<lparr>localStorage = \<lparr>entries = [], accessible = True, quota = 10\<rparr>, console = []\<rparr>"

definition corrupt_browser :: browser where
  "corrupt_browser =
     \<lparr>localStorage = \<lparr>entries = [(''klinecharts-pro-overlays-AAPL'', ''[{'')],
                       accessible = True, quota = 5000000\<rparr>,
      console = []\<rparr>"

definition throwing_json :: "int JSON" where
  "throwing_json = \<lparr>stringify = (\<lambda>v. Inl TypeError), parse = json_parse\<rparr>"

text \<open>
  A third overlay, in another group, and the states of a component showing
  the symbol AAPL: two overlays tracked and not yet saved; the same after an
  auto-save tick; the same after the symbol has changed to GOOGL, with an
  engine that creates nothing (another engine answers every request by
  creating the third overlay); two overlays tracked of which the engine has
  dropped the second; and three overlays tracked, before and after the
  drawing bar removes the group \<open>drawing_tools\<close>.
\<close>

definition note_o3 :: "int Overlay" where
  "note_o3 =
     \<lparr>id' = ''o3'', groupId = ''notes'', name = ''simpleAnnotation'',
      points = [[(''dataIndex'', JNum 7), (''value'', JNum 101)]],
      lock = False, visible = False, mode = ''strong_magnet'',
      extendData = JStr ''buy'', styles = JNull\<rparr>"

definition tracked_session :: "(int, unit) component" where
  "tracked_session =
     \<lparr>overlayPersistenceEnabled = True,
      overlayStorage = Some (OverlayStorage_new ''AAPL'' None),
      overlayMap = [(''o1'', line_o1), (''o2'', segment_o2)],
      autoSaveIntervalId = Some 1,
      widget = Some [line_o1, segment_o2],
      loading = False,
      window = fresh_browser\<rparr>"

definition aapl_session :: "(int, unit) component" where
  "aapl_session = snd (autoSaveTick json tracked_session)"

definition engine_rejects :: "int jsval \<Rightarrow> int Overlay list \<Rightarrow> create_result \<times> int Overlay list" where
  "engine_rejects overlayCreate chart = (CreatedNull, chart)"

definition engine_creates_o3 :: "int jsval \<Rightarrow> int Overlay list \<Rightarrow> create_result \<times> int Overlay list" where
  "engine_creates_o3 overlayCreate chart = (CreatedId ''o3'', chart @ [note_o3])"

definition googl_session :: "(int, unit) component" where
  "googl_session =
     snd (symbolEffect_get json engine_rejects (Some ''AAPL'') ''GOOGL''
       (snd (symbolEffect json (Some ''AAPL'') ''GOOGL'' aapl_session)))"

definition stale_session :: "(int, unit) component" where
  "stale_session = tracked_session\<lparr>widget := Some [line_o1]\<rparr>"

definition three_session :: "(int, unit) component" where
  "three_session =
     tracked_session\<lparr>overlayMap := [(''o1'', line_o1), (''o2'', segment_o2), (''o3'', note_o3)],
                     widget := Some [line_o1, segment_o2, note_o3]\<rparr>"

definition after_removal :: "(js_error + unit) \<times> (int, unit) component" where
  "after_removal = onRemoveClick json ''drawing_tools'' three_session"

section \<open>Properties of the serializer\<close>

lemma update_fresh: "k \<notin> fst ` set acc \<Longrightarrow> AList.update k v acc = acc @ [(k, v)]"
  by (induction acc) auto

lemma spread_foldl:
  "distinct (map fst p) \<Longrightarrow> fst ` set acc \<inter> fst ` set p = {} \<Longrightarrow>
   foldl (\<lambda>acc (k, v). AList.update k v acc) acc p = acc @ p"
proof (induction p arbitrary: acc)
  case Nil
  then show ?case by simp
next
  case (Cons kv p)
  obtain k v where kv: "kv = (k, v)" by (cases kv)
  from Cons.prems have fresh: "k \<notin> fst ` set acc" by (auto simp: kv)
  have "fst ` set (acc @ [(k, v)]) \<inter> fst ` set p = {}"
    using Cons.prems by (auto simp: kv)
  moreover have "distinct (map fst p)" using Cons.prems by simp
  ultimately have
    "foldl (\<lambda>acc (k, v). AList.update k v acc) (acc @ [(k, v)]) p = (acc @ [(k, v)]) @ p"
    by (rule Cons.IH[rotated])
  then show ?case by (simp add: kv update_fresh[OF fresh])
qed

lemma obj_spread_wf: "distinct (map fst p) \<Longrightarrow> obj_spread p = p"
  unfolding obj_spread_def using spread_foldl[of p "[]"] by simp

lemma map_spread_wf:
  "\<forall>p \<in> set ps. distinct (map fst p) \<Longrightarrow> map (\<lambda>p. JObj (obj_spread p)) ps = map JObj ps"
  by (induction ps) (simp_all add: obj_spread_wf)

lemma segment_o2_wf: "\<forall>p \<in> set (points segment_o2). distinct (map fst p)"
  by (simp add: segment_o2_def)

text \<open>
  C1. For every overlay, with any list of points (empty, and with any of the
  coordinates present or missing), deserializing the serialized overlay
  succeeds and gives a creation request whose \<open>id\<close>, \<open>groupId\<close>, \<open>name\<close>,
  \<open>lock\<close>, \<open>visible\<close>, \<open>mode\<close>, \<open>extendData\<close> and \<open>styles\<close> are those of
  the overlay, and whose points are, one by one, objects with the same
  properties as the overlay's points, so in particular the same
  \<open>timestamp\<close>, \<open>dataIndex\<close> and \<open>value\<close>. The points are JavaScript
  objects: their property names are pairwise distinct.
\<close>

theorem serialize_deserialize_roundtrip:
  assumes "\<forall>p \<in> set (points ov). distinct (map fst p)"
  shows "\<exists>C. deserializeOverlay (serializeOverlay ov) = Inr C
     \<and> get C ''id'' = JStr (id' ov) \<and> get C ''groupId'' = JStr (groupId ov)
     \<and> get C ''name'' = JStr (name ov) \<and> get C ''lock'' = JBool (lock ov)
     \<and> get C ''visible'' = JBool (visible ov) \<and> get C ''mode'' = JStr (mode ov)
     \<and> get C ''extendData'' = extendData ov \<and> get C ''styles'' = styles ov
     \<and> get C ''points'' = JArr (map JObj (points ov))"
  using map_spread_wf[OF assms]
  by (simp add: deserializeOverlay_def serializeOverlay_def)

theorem serialize_deserialize_roundtrip_witness:
  "list_all (\<lambda>p. distinct (map fst p)) (points segment_o2)
   \<and> (\<exists>C. deserializeOverlay (serializeOverlay segment_o2) = Inr C
        \<and> get C ''id'' = JStr ''o2'' \<and> get C ''mode'' = JStr ''weak_magnet''
        \<and> get C ''lock'' = JBool True
        \<and> get C ''points'' =
            JArr [JObj [(''timestamp'', JNum 1700000000000), (''dataIndex'', JNum 12),
                        (''value'', JNum 185)],
                  JObj [(''timestamp'', JNum 1700000600000), (''value'', JNum 190),
                        (''paneId'', JStr ''candle_pane'')],
                  JObj []])"
proof -
  from serialize_deserialize_roundtrip[OF segment_o2_wf]
  obtain C where "deserializeOverlay (serializeOverlay segment_o2) = Inr C"
    and "get C ''id'' = JStr (id' segment_o2)"
    and "get C ''mode'' = JStr (mode segment_o2)"
    and "get C ''lock'' = JBool (lock segment_o2)"
    and "get C ''points'' = JArr (map JObj (points segment_o2))"
    by blast
  then have "\<exists>C. deserializeOverlay (serializeOverlay segment_o2) = Inr C
        \<and> get C ''id'' = JStr ''o2'' \<and> get C ''mode'' = JStr ''weak_magnet''
        \<and> get C ''lock'' = JBool True
        \<and> get C ''points'' =
            JArr [JObj [(''timestamp'', JNum 1700000000000), (''dataIndex'', JNum 12),
                        (''value'', JNum 185)],
                  JObj [(''timestamp'', JNum 1700000600000), (''value'', JNum 190),
                        (''paneId'', JStr ''candle_pane'')],
                  JObj []]"
    by (simp add: segment_o2_def)
  moreover have "list_all (\<lambda>p. distinct (map fst p)) (points segment_o2)"
    using segment_o2_wf by (simp add: list_all_iff)
  ultimately show ?thesis by blast
qed

text \<open>
  C2, as claimed: each serialized point contains only those of \<open>timestamp\<close>,
  \<open>dataIndex\<close> and \<open>value\<close> that the point has, and nothing else. The code
  copies every property of the point: the second point of the segment keeps
  its \<open>paneId\<close>.
\<close>

theorem serialize_points_only_coordinates_counterexample:
  "point_names (serializeOverlay segment_o2) =
     [[''timestamp'', ''dataIndex'', ''value''], [''timestamp'', ''value'', ''paneId''], []]"
  by (simp add: point_names_def serializeOverlay_def segment_o2_def obj_spread_def)

text \<open>
  C2, amended: \<open>serializeOverlay\<close> maps each point to a new object with exactly
  the point's own properties, names and values, in the same order; whatever
  further properties the engine has put on a point are kept.
\<close>

theorem serialize_points_keep_all_properties:
  assumes "\<forall>p \<in> set (points ov). distinct (map fst p)"
  shows "get (serializeOverlay ov) ''points'' = JArr (map JObj (points ov))"
  using map_spread_wf[OF assms] by (simp add: serializeOverlay_def)

theorem serialize_points_keep_all_properties_witness:
  "list_all (\<lambda>p. distinct (map fst p)) (points segment_o2)
   \<and> get (serializeOverlay segment_o2) ''points'' =
       JArr [JObj [(''timestamp'', JNum 1700000000000), (''dataIndex'', JNum 12),
                   (''value'', JNum 185)],
             JObj [(''timestamp'', JNum 1700000600000), (''value'', JNum 190),
                   (''paneId'', JStr ''candle_pane'')],
             JObj []]"
  using serialize_points_keep_all_properties[OF segment_o2_wf]
  by (simp add: segment_o2_def)
section \<open>Properties of the local store adapter\<close>

text \<open>
  Each adapter function, with its \<open>try\<close> and \<open>catch\<close> resolved: what it
  returns and what it leaves behind, by the state of the storage and by the
  outcome of the JSON call.
\<close>

lemma save_unfold:
  "saveOverlaysToLocalStorage J s X b =
     (if accessible (localStorage b) then
        (case stringify J (JArr X) of
           Inl e \<Rightarrow> (Inr (), console_error ''Failed to save overlays to localStorage:'' e b)
         | Inr t \<Rightarrow>
            (case setItem (getStorageKey s) t (localStorage b) of
               Inl e \<Rightarrow> (Inr (), console_error ''Failed to save overlays to localStorage:'' e b)
             | Inr ls \<Rightarrow> (Inr (), b\<lparr>localStorage := ls\<rparr>)))
      else (Inr (), console_error ''Failed to save overlays to localStorage:'' SecurityError b))"
  by (simp add: saveOverlaysToLocalStorage_def try_catch_def window_localStorage_def Let_def
      split: sum.splits)

lemma load_unfold:
  "loadOverlaysFromLocalStorage J s b =
     (if accessible (localStorage b) then
        (case getItem (getStorageKey s) (localStorage b) of
           None \<Rightarrow> (Inr (JArr []), b)
         | Some d \<Rightarrow>
            if d = [] then (Inr (JArr []), b)
            else (case parse J d of
                    Inl e \<Rightarrow> (Inr (JArr []), console_error ''Failed to load overlays from localStorage:'' e b)
                  | Inr v \<Rightarrow> (Inr v, b)))
      else (Inr (JArr []), console_error ''Failed to load overlays from localStorage:'' SecurityError b))"
  by (simp add: loadOverlaysFromLocalStorage_def try_catch_def window_localStorage_def Let_def
      split: sum.splits option.splits)

lemma clear_unfold:
  "clearOverlaysFromLocalStorage s b =
     (if accessible (localStorage b)
      then (Inr (), b\<lparr>localStorage := removeItem (getStorageKey s) (localStorage b)\<rparr>)
      else (Inr (), console_error ''Failed to clear overlays from localStorage:'' SecurityError b))"
  by (simp add: clearOverlaysFromLocalStorage_def try_catch_def window_localStorage_def Let_def
      split: sum.splits)

lemma save_returns: "fst (saveOverlaysToLocalStorage J s X b) = Inr ()"
  by (simp add: save_unfold split: sum.splits)

lemma getItem_setItem:
  "setItem k v ls = Inr ls' \<Longrightarrow> getItem k' ls' = (if k' = k then Some v else getItem k' ls)"
  by (auto simp: setItem_def getItem_def Let_def update_conv' split: if_splits)

lemma setItem_frame:
  "setItem k v ls = Inr ls' \<Longrightarrow> accessible ls' = accessible ls \<and> quota ls' = quota ls"
  by (auto simp: setItem_def Let_def split: if_splits)

lemma getItem_removeItem:
  "getItem k' (removeItem k ls) = (if k' = k then None else getItem k' ls)"
  by (simp add: removeItem_def getItem_def delete_conv')

lemma getStorageKey_inj: "getStorageKey s = getStorageKey s' \<longleftrightarrow> s = s'"
  by (simp add: getStorageKey_def)

lemma save_other_keys:
  "k \<noteq> getStorageKey s \<Longrightarrow>
   getItem k (localStorage (snd (saveOverlaysToLocalStorage J s X b))) = getItem k (localStorage b)"
  by (auto simp: save_unfold console_error_def getItem_setItem split: sum.splits)

lemma clear_other_keys:
  "k \<noteq> getStorageKey s \<Longrightarrow>
   getItem k (localStorage (snd (clearOverlaysFromLocalStorage s b))) = getItem k (localStorage b)"
  by (auto simp: clear_unfold console_error_def getItem_removeItem)

lemma storage_size_update:
  "storage_size (AList.update k v es) \<le> storage_size es + length k + length v"
  by (induction es) (auto simp: storage_size_def)

lemma save_ok:
  assumes "accessible (localStorage b)"
    and "stringify J (JArr X) = Inr t"
    and "storage_size (entries (localStorage b)) + length (getStorageKey s) + length t
           \<le> quota (localStorage b)"
  shows "saveOverlaysToLocalStorage J s X b =
           (Inr (), b\<lparr>localStorage :=
              (localStorage b)\<lparr>entries := AList.update (getStorageKey s) t (entries (localStorage b))\<rparr>\<rparr>)"
proof -
  have "storage_size (AList.update (getStorageKey s) t (entries (localStorage b)))
          \<le> quota (localStorage b)"
    using storage_size_update[of "getStorageKey s" t "entries (localStorage b)"] assms(3) by linarith
  then show ?thesis
    using assms(1,2) by (simp add: save_unfold setItem_def Let_def)
qed

lemma load_after_two_saves:
  assumes ne: "s1 \<noteq> s2"
    and acc: "accessible (localStorage b)"
    and X: "json_roundtrips J (JArr X)" and Y: "json_roundtrips J (JArr Y)"
    and room: "storage_size (entries (localStorage b))
           + (length (getStorageKey s1) + text_size J (JArr X))
           + (length (getStorageKey s2) + text_size J (JArr Y)) \<le> quota (localStorage b)"
  shows "fst (loadOverlaysFromLocalStorage J s1
            (snd (saveOverlaysToLocalStorage J s2 Y (snd (saveOverlaysToLocalStorage J s1 X b)))))
         = Inr (JArr X)"
    and "fst (loadOverlaysFromLocalStorage J s2
            (snd (saveOverlaysToLocalStorage J s2 Y (snd (saveOverlaysToLocalStorage J s1 X b)))))
         = Inr (JArr Y)"
proof -
  obtain tx where tx: "stringify J (JArr X) = Inr tx" "tx \<noteq> []" "parse J tx = Inr (JArr X)"
    using X by (auto simp: json_roundtrips_def split: sum.splits)
  obtain ty where ty: "stringify J (JArr Y) = Inr ty" "ty \<noteq> []" "parse J ty = Inr (JArr Y)"
    using Y by (auto simp: json_roundtrips_def split: sum.splits)
  let ?ls = "localStorage b"
  let ?k1 = "getStorageKey s1" and ?k2 = "getStorageKey s2"
  have k: "?k1 \<noteq> ?k2" using ne by (simp add: getStorageKey_inj)
  have sz: "storage_size (entries ?ls) + (length ?k1 + length tx) + (length ?k2 + length ty) \<le> quota ?ls"
    using room tx(1) ty(1) by (simp add: text_size_def)
  let ?b1 = "b\<lparr>localStorage := ?ls\<lparr>entries := AList.update ?k1 tx (entries ?ls)\<rparr>\<rparr>"
  have s1: "saveOverlaysToLocalStorage J s1 X b = (Inr (), ?b1)"
    using sz by (intro save_ok acc tx(1)) simp
  let ?b2 = "?b1\<lparr>localStorage := (localStorage ?b1)\<lparr>entries :=
               AList.update ?k2 ty (entries (localStorage ?b1))\<rparr>\<rparr>"
  have "storage_size (entries (localStorage ?b1)) + length ?k2 + length ty \<le> quota (localStorage ?b1)"
    using storage_size_update[of ?k1 tx "entries ?ls"] sz by simp
  then have s2: "saveOverlaysToLocalStorage J s2 Y ?b1 = (Inr (), ?b2)"
    using acc ty(1) by (intro save_ok) simp_all
  have g1: "getItem ?k1 (localStorage ?b2) = Some tx"
    using k by (simp add: getItem_def update_conv')
  have g2: "getItem ?k2 (localStorage ?b2) = Some ty"
    by (simp add: getItem_def update_conv')
  have a2: "accessible (localStorage ?b2)" using acc by simp
  show "fst (loadOverlaysFromLocalStorage J s1
            (snd (saveOverlaysToLocalStorage J s2 Y (snd (saveOverlaysToLocalStorage J s1 X b)))))
         = Inr (JArr X)"
    unfolding s1 snd_conv s2 using a2 g1 tx by (simp add: load_unfold del: getItem_def)
  show "fst (loadOverlaysFromLocalStorage J s2
            (snd (saveOverlaysToLocalStorage J s2 Y (snd (saveOverlaysToLocalStorage J s1 X b)))))
         = Inr (JArr Y)"
    unfolding s1 snd_conv s2 using a2 g2 ty by (simp add: load_unfold)
qed

lemma fresh_browser_accessible: "accessible (localStorage fresh_browser)"
  by (simp add: fresh_browser_def)

lemma line_o1_roundtrips: "json_roundtrips json (JArr [serializeOverlay line_o1])"
  by code_simp

lemma segment_o2_roundtrips: "json_roundtrips json (JArr [serializeOverlay segment_o2])"
  by code_simp

lemma line_o1_text_size: "text_size json (JArr [serializeOverlay line_o1]) \<le> 300"
  by code_simp

lemma segment_o2_text_size: "text_size json (JArr [serializeOverlay segment_o2]) \<le> 300"
  by code_simp

lemma fresh_browser_room: "storage_size (entries (localStorage fresh_browser))
           + (length (getStorageKey ''AAPL'') + text_size json (JArr [serializeOverlay line_o1]))
           + (length (getStorageKey ''BTCUSD'') + text_size json (JArr [serializeOverlay segment_o2]))
         \<le> quota (localStorage fresh_browser)"
  using line_o1_text_size segment_o2_text_size by (simp add: fresh_browser_def storage_size_def getStorageKey_def STORAGE_PREFIX_def)

text \<open>
  C5. For every symbol, every list of records, every JSON implementation and
  every state of the browser, \<open>saveOverlaysToLocalStorage\<close>,
  \<open>loadOverlaysFromLocalStorage\<close> and \<open>clearOverlaysFromLocalStorage\<close>
  return normally. Every error is caught and logged: when the storage cannot
  be reached, each of the three appends its message with the
  \<open>SecurityError\<close> to the console and changes nothing else; when
  \<open>JSON.stringify\<close> throws or \<open>setItem\<close> throws, saving appends its
  message with that error and leaves the storage as it was; when
  \<open>JSON.parse\<close> throws, loading appends its message with that error.
  Without an error, saving changes only the storage, which then holds the
  text, and clearing changes only the storage, which then lacks the key;
  loading an absent key or the empty string changes nothing.
  \<open>loadOverlaysFromLocalStorage\<close> returns the empty array
  when the storage cannot be reached, when the key is absent or holds the
  empty string, and when the stored text fails to decode.
\<close>

theorem local_store_never_throws:
  "fst (saveOverlaysToLocalStorage J s X b) = Inr ()
   \<and> fst (clearOverlaysFromLocalStorage s b) = Inr ()
   \<and> (\<exists>v. fst (loadOverlaysFromLocalStorage J s b) = Inr v)
   \<and> (\<not> accessible (localStorage b) \<longrightarrow>
         snd (saveOverlaysToLocalStorage J s X b)
           = b\<lparr>console := console b @ [(''Failed to save overlays to localStorage:'', SecurityError)]\<rparr>
       \<and> loadOverlaysFromLocalStorage J s b
           = (Inr (JArr []),
              b\<lparr>console := console b @ [(''Failed to load overlays from localStorage:'', SecurityError)]\<rparr>)
       \<and> snd (clearOverlaysFromLocalStorage s b)
           = b\<lparr>console := console b @ [(''Failed to clear overlays from localStorage:'', SecurityError)]\<rparr>)
   \<and> (\<forall>e. accessible (localStorage b) \<and> stringify J (JArr X) = Inl e \<longrightarrow>
         snd (saveOverlaysToLocalStorage J s X b)
           = b\<lparr>console := console b @ [(''Failed to save overlays to localStorage:'', e)]\<rparr>)
   \<and> (\<forall>t e. accessible (localStorage b) \<and> stringify J (JArr X) = Inr t
           \<and> setItem (getStorageKey s) t (localStorage b) = Inl e \<longrightarrow>
         snd (saveOverlaysToLocalStorage J s X b)
           = b\<lparr>console := console b @ [(''Failed to save overlays to localStorage:'', e)]\<rparr>)
   \<and> (\<forall>t ls. accessible (localStorage b) \<and> stringify J (JArr X) = Inr t
           \<and> setItem (getStorageKey s) t (localStorage b) = Inr ls \<longrightarrow>
         snd (saveOverlaysToLocalStorage J s X b) = b\<lparr>localStorage := ls\<rparr>)
   \<and> (accessible (localStorage b) \<longrightarrow>
         snd (clearOverlaysFromLocalStorage s b)
           = b\<lparr>localStorage := removeItem (getStorageKey s) (localStorage b)\<rparr>)
   \<and> (accessible (localStorage b)
         \<and> (getItem (getStorageKey s) (localStorage b) = None
            \<or> getItem (getStorageKey s) (localStorage b) = Some []) \<longrightarrow>
         loadOverlaysFromLocalStorage J s b = (Inr (JArr []), b))
   \<and> (\<forall>d e. accessible (localStorage b) \<and> getItem (getStorageKey s) (localStorage b) = Some d
           \<and> d \<noteq> [] \<and> parse J d = Inl e \<longrightarrow>
         loadOverlaysFromLocalStorage J s b
           = (Inr (JArr []),
              b\<lparr>console := console b @ [(''Failed to load overlays from localStorage:'', e)]\<rparr>))
   \<and> (\<not> accessible (localStorage b)
        \<or> getItem (getStorageKey s) (localStorage b) = None
        \<or> (\<exists>d e. getItem (getStorageKey s) (localStorage b) = Some d \<and> parse J d = Inl e)
      \<longrightarrow> fst (loadOverlaysFromLocalStorage J s b) = Inr (JArr []))"
proof -
  have 1: "fst (saveOverlaysToLocalStorage J s X b) = Inr ()"
    by (rule save_returns)
  have 2: "fst (clearOverlaysFromLocalStorage s b) = Inr ()"
    by (simp add: clear_unfold)
  have 3: "\<exists>v. fst (loadOverlaysFromLocalStorage J s b) = Inr v"
    by (simp add: load_unfold split: option.splits sum.splits)
  have 4: "\<not> accessible (localStorage b) \<longrightarrow>
         snd (saveOverlaysToLocalStorage J s X b)
           = b\<lparr>console := console b @ [(''Failed to save overlays to localStorage:'', SecurityError)]\<rparr>
       \<and> loadOverlaysFromLocalStorage J s b
           = (Inr (JArr []),
              b\<lparr>console := console b @ [(''Failed to load overlays from localStorage:'', SecurityError)]\<rparr>)
       \<and> snd (clearOverlaysFromLocalStorage s b)
           = b\<lparr>console := console b @ [(''Failed to clear overlays from localStorage:'', SecurityError)]\<rparr>"
    by (simp add: save_unfold load_unfold clear_unfold console_error_def)
  have 5: "\<forall>e. accessible (localStorage b) \<and> stringify J (JArr X) = Inl e \<longrightarrow>
         snd (saveOverlaysToLocalStorage J s X b)
           = b\<lparr>console := console b @ [(''Failed to save overlays to localStorage:'', e)]\<rparr>"
    by (simp add: save_unfold console_error_def)
  have 6: "\<forall>t e. accessible (localStorage b) \<and> stringify J (JArr X) = Inr t
           \<and> setItem (getStorageKey s) t (localStorage b) = Inl e \<longrightarrow>
         snd (saveOverlaysToLocalStorage J s X b)
           = b\<lparr>console := console b @ [(''Failed to save overlays to localStorage:'', e)]\<rparr>"
    by (simp add: save_unfold console_error_def)
  have 7: "\<forall>t ls. accessible (localStorage b) \<and> stringify J (JArr X) = Inr t
           \<and> setItem (getStorageKey s) t (localStorage b) = Inr ls \<longrightarrow>
         snd (saveOverlaysToLocalStorage J s X b) = b\<lparr>localStorage := ls\<rparr>"
    by (simp add: save_unfold)
  have 8: "accessible (localStorage b) \<longrightarrow>
         snd (clearOverlaysFromLocalStorage s b)
           = b\<lparr>localStorage := removeItem (getStorageKey s) (localStorage b)\<rparr>"
    by (simp add: clear_unfold)
  have 9: "accessible (localStorage b)
         \<and> (getItem (getStorageKey s) (localStorage b) = None
            \<or> getItem (getStorageKey s) (localStorage b) = Some []) \<longrightarrow>
         loadOverlaysFromLocalStorage J s b = (Inr (JArr []), b)"
    by (auto simp: load_unfold)
  have 10: "\<forall>d e. accessible (localStorage b) \<and> getItem (getStorageKey s) (localStorage b) = Some d
           \<and> d \<noteq> [] \<and> parse J d = Inl e \<longrightarrow>
         loadOverlaysFromLocalStorage J s b
           = (Inr (JArr []),
              b\<lparr>console := console b @ [(''Failed to load overlays from localStorage:'', e)]\<rparr>)"
    by (simp add: load_unfold console_error_def)
  have 11: "\<not> accessible (localStorage b)
        \<or> getItem (getStorageKey s) (localStorage b) = None
        \<or> (\<exists>d e. getItem (getStorageKey s) (localStorage b) = Some d \<and> parse J d = Inl e)
      \<longrightarrow> fst (loadOverlaysFromLocalStorage J s b) = Inr (JArr [])"
    by (auto simp: load_unfold split: option.splits sum.splits)
  from 1 2 3 4 5 6 7 8 9 10 11 show ?thesis
    by (intro conjI)
qed

theorem local_store_never_throws_witness:
  "accessible (localStorage denied_browser) = False
   \<and> saveOverlaysToLocalStorage json ''AAPL'' [serializeOverlay line_o1] denied_browser
       = (Inr (), denied_browser\<lparr>console :=
            [(''Failed to save overlays to localStorage:'', SecurityError)]\<rparr>)
   \<and> loadOverlaysFromLocalStorage json ''AAPL'' denied_browser
       = (Inr (JArr []), denied_browser\<lparr>console :=
            [(''Failed to load overlays from localStorage:'', SecurityError)]\<rparr>)
   \<and> clearOverlaysFromLocalStorage ''AAPL'' denied_browser
       = (Inr (), denied_browser\<lparr>console :=
            [(''Failed to clear overlays from localStorage:'', SecurityError)]\<rparr>)
   \<and> stringify throwing_json (JArr [serializeOverlay line_o1]) = Inl TypeError
   \<and> saveOverlaysToLocalStorage throwing_json ''AAPL'' [serializeOverlay line_o1] fresh_browser
       = (Inr (), fresh_browser\<lparr>console :=
            [(''Failed to save overlays to localStorage:'', TypeError)]\<rparr>)
   \<and> setItem (getStorageKey ''AAPL'') (json_text (JArr [])) (localStorage full_browser)
       = Inl QuotaExceededError
   \<and> saveOverlaysToLocalStorage json ''AAPL'' [] full_browser
       = (Inr (), full_browser\<lparr>console :=
            [(''Failed to save overlays to localStorage:'', QuotaExceededError)]\<rparr>)
   \<and> getItem (getStorageKey ''AAPL'') (localStorage corrupt_browser) = Some ''[{''
   \<and> parse json ''[{'' = Inl SyntaxError
   \<and> loadOverlaysFromLocalStorage json ''AAPL'' corrupt_browser
       = (Inr (JArr []), corrupt_browser\<lparr>console :=
            [(''Failed to load overlays from localStorage:'', SyntaxError)]\<rparr>)
   \<and> getItem (getStorageKey ''NEVER_SAVED'') (localStorage fresh_browser) = None
   \<and> loadOverlaysFromLocalStorage json ''NEVER_SAVED'' fresh_browser = (Inr (JArr []), fresh_browser)
   \<and> snd (clearOverlaysFromLocalStorage ''AAPL'' corrupt_browser)
       = corrupt_browser\<lparr>localStorage := (localStorage corrupt_browser)\<lparr>entries := []\<rparr>\<rparr>"
proof -
  have d: "\<not> accessible (localStorage denied_browser)" by (simp add: denied_browser_def)
  have dc: "console denied_browser = []" by (simp add: denied_browser_def)
  have fa: "accessible (localStorage fresh_browser)" by (simp add: fresh_browser_def)
  have fc: "console fresh_browser = []" by (simp add: fresh_browser_def)
  have ua: "accessible (localStorage full_browser)" by (simp add: full_browser_def)
  have uc: "console full_browser = []" by (simp add: full_browser_def)
  have ca: "accessible (localStorage corrupt_browser)" by (simp add: corrupt_browser_def)
  have cc: "console corrupt_browser = []" by (simp add: corrupt_browser_def)
  have th: "stringify throwing_json (JArr [serializeOverlay line_o1]) = Inl TypeError"
    by (simp add: throwing_json_def)
  have tx: "stringify json (JArr []) = Inr (json_text (JArr []))" by (simp add: json_def)
  have q: "setItem (getStorageKey ''AAPL'') (json_text (JArr [])) (localStorage full_browser)
       = Inl QuotaExceededError"
    by (simp add: setItem_def full_browser_def storage_size_def getStorageKey_def STORAGE_PREFIX_def)
  have g: "getItem (getStorageKey ''AAPL'') (localStorage corrupt_browser) = Some ''[{''"
    by (simp add: getItem_def corrupt_browser_def getStorageKey_def STORAGE_PREFIX_def)
  have n: "''[{'' \<noteq> []" by simp
  have p: "parse json ''[{'' = Inl SyntaxError" by code_simp
  have g0: "getItem (getStorageKey ''NEVER_SAVED'') (localStorage fresh_browser) = None"
    by (simp add: getItem_def fresh_browser_def)
  have r: "removeItem (getStorageKey ''AAPL'') (localStorage corrupt_browser)
        = (localStorage corrupt_browser)\<lparr>entries := []\<rparr>"
    by (simp add: removeItem_def corrupt_browser_def getStorageKey_def STORAGE_PREFIX_def)
  note t1 = local_store_never_throws[of json "''AAPL''" "[serializeOverlay line_o1]" denied_browser]
  note t2 = local_store_never_throws[of throwing_json "''AAPL''" "[serializeOverlay line_o1]" fresh_browser]
  note t3 = local_store_never_throws[of json "''AAPL''" "[]" full_browser]
  note t4 = local_store_never_throws[of json "''AAPL''" "[]" corrupt_browser]
  note t5 = local_store_never_throws[of json "''NEVER_SAVED''" "[]" fresh_browser]
  have 1: "saveOverlaysToLocalStorage json ''AAPL'' [serializeOverlay line_o1] denied_browser
       = (Inr (), denied_browser\<lparr>console :=
            [(''Failed to save overlays to localStorage:'', SecurityError)]\<rparr>)"
    using t1 d dc by (metis append_Nil prod.collapse)
  have 2: "loadOverlaysFromLocalStorage json ''AAPL'' denied_browser
       = (Inr (JArr []), denied_browser\<lparr>console :=
            [(''Failed to load overlays from localStorage:'', SecurityError)]\<rparr>)"
    using t1 d dc by (metis append_Nil)
  have 3: "clearOverlaysFromLocalStorage ''AAPL'' denied_browser
       = (Inr (), denied_browser\<lparr>console :=
            [(''Failed to clear overlays from localStorage:'', SecurityError)]\<rparr>)"
    using t1 d dc by (metis append_Nil prod.collapse)
  have 4: "saveOverlaysToLocalStorage throwing_json ''AAPL'' [serializeOverlay line_o1] fresh_browser
       = (Inr (), fresh_browser\<lparr>console :=
            [(''Failed to save overlays to localStorage:'', TypeError)]\<rparr>)"
    using t2 fa fc th by (metis append_Nil prod.collapse)
  have 5: "saveOverlaysToLocalStorage json ''AAPL'' [] full_browser
       = (Inr (), full_browser\<lparr>console :=
            [(''Failed to save overlays to localStorage:'', QuotaExceededError)]\<rparr>)"
    using t3 ua uc tx q by (metis append_Nil prod.collapse)
  have 6: "loadOverlaysFromLocalStorage json ''AAPL'' corrupt_browser
       = (Inr (JArr []), corrupt_browser\<lparr>console :=
            [(''Failed to load overlays from localStorage:'', SyntaxError)]\<rparr>)"
    using t4 ca cc g n p by (metis append_Nil)
  have 7: "loadOverlaysFromLocalStorage json ''NEVER_SAVED'' fresh_browser = (Inr (JArr []), fresh_browser)"
    using t5 fa g0 by blast
  have 8: "snd (clearOverlaysFromLocalStorage ''AAPL'' corrupt_browser)
       = corrupt_browser\<lparr>localStorage := (localStorage corrupt_browser)\<lparr>entries := []\<rparr>\<rparr>"
    using t4 ca r by simp
  from d 1 2 3 th 4 q 5 g p 6 g0 7 8 show ?thesis by simp
qed

text \<open>
  C10. When the string stored under the symbol's key is a JSON text,
  \<open>loadOverlaysFromLocalStorage\<close> returns the value it parses to, whatever
  its shape, and changes nothing. A JSON text is never the empty string; the
  code's test \<open>if (data)\<close> treats an empty stored string as absent. In the
  example the stored text is \<open>42\<close> and the number 42 is returned, not an
  array.
\<close>

theorem load_returns_parsed_value:
  assumes "accessible (localStorage b)"
    and "getItem (getStorageKey s) (localStorage b) = Some d"
    and "d \<noteq> []"
    and "parse J d = Inr v"
  shows "loadOverlaysFromLocalStorage J s b = (Inr v, b)"
  using assms by (simp add: load_unfold)

theorem load_returns_parsed_value_witness:
  "accessible (localStorage (fresh_browser\<lparr>localStorage :=
       (localStorage fresh_browser)\<lparr>entries := [(getStorageKey ''AAPL'', ''42'')]\<rparr>\<rparr>))
   \<and> getItem (getStorageKey ''AAPL'') (localStorage (fresh_browser\<lparr>localStorage :=
       (localStorage fresh_browser)\<lparr>entries := [(getStorageKey ''AAPL'', ''42'')]\<rparr>\<rparr>)) = Some ''42''
   \<and> ''42'' \<noteq> []
   \<and> parse json ''42'' = Inr (JNum 42)
   \<and> fst (loadOverlaysFromLocalStorage json ''AAPL'' (fresh_browser\<lparr>localStorage :=
       (localStorage fresh_browser)\<lparr>entries := [(getStorageKey ''AAPL'', ''42'')]\<rparr>\<rparr>))
       = Inr (JNum 42)"
proof -
  let ?b = "fresh_browser\<lparr>localStorage :=
       (localStorage fresh_browser)\<lparr>entries := [(getStorageKey ''AAPL'', ''42'')]\<rparr>\<rparr>"
  have a: "accessible (localStorage ?b)" by (simp add: fresh_browser_def)
  have g: "getItem (getStorageKey ''AAPL'') (localStorage ?b) = Some ''42''"
    by (simp add: getItem_def)
  have n: "''42'' \<noteq> []" by simp
  have p: "parse json ''42'' = Inr (JNum 42)" by code_simp
  from load_returns_parsed_value[OF a g n p] a g n p show ?thesis by simp
qed

text \<open>
  C7. The key for a symbol is the text \<open>klinecharts-pro-overlays-\<close>
  followed by the symbol, and \<open>klinecharts-pro-overlays\<close> is the constant
  prefix. That key is the one the three functions use: saving and clearing
  leave every other key as it was, a save that goes through puts the text
  under that key, clearing empties that key, and what loading returns is
  decided by the string under that key.
\<close>

theorem storage_key_format:
  "getStorageKey s = ''klinecharts-pro-overlays-'' @ s
   \<and> STORAGE_PREFIX = ''klinecharts-pro-overlays''
   \<and> (\<forall>k. k \<noteq> ''klinecharts-pro-overlays-'' @ s \<longrightarrow>
         getItem k (localStorage (snd (saveOverlaysToLocalStorage J s X b))) = getItem k (localStorage b))
   \<and> (\<forall>t ls. accessible (localStorage b) \<and> stringify J (JArr X) = Inr t
           \<and> setItem (''klinecharts-pro-overlays-'' @ s) t (localStorage b) = Inr ls \<longrightarrow>
         getItem (''klinecharts-pro-overlays-'' @ s)
           (localStorage (snd (saveOverlaysToLocalStorage J s X b))) = Some t)
   \<and> (\<forall>k. k \<noteq> ''klinecharts-pro-overlays-'' @ s \<longrightarrow>
         getItem k (localStorage (snd (clearOverlaysFromLocalStorage s b))) = getItem k (localStorage b))
   \<and> (accessible (localStorage b) \<longrightarrow>
         getItem (''klinecharts-pro-overlays-'' @ s)
           (localStorage (snd (clearOverlaysFromLocalStorage s b))) = None)
   \<and> (accessible (localStorage b) \<longrightarrow>
         fst (loadOverlaysFromLocalStorage J s b) =
           (case getItem (''klinecharts-pro-overlays-'' @ s) (localStorage b) of
              None \<Rightarrow> Inr (JArr [])
            | Some d \<Rightarrow>
                if d = [] then Inr (JArr [])
                else (case parse J d of Inl e \<Rightarrow> Inr (JArr []) | Inr v \<Rightarrow> Inr v)))"
proof -
  have key: "getStorageKey s = ''klinecharts-pro-overlays-'' @ s"
    by (simp add: getStorageKey_def STORAGE_PREFIX_def)
  have pre: "STORAGE_PREFIX = ''klinecharts-pro-overlays''"
    by (simp add: STORAGE_PREFIX_def)
  have save_frame: "\<forall>k. k \<noteq> ''klinecharts-pro-overlays-'' @ s \<longrightarrow>
         getItem k (localStorage (snd (saveOverlaysToLocalStorage J s X b))) = getItem k (localStorage b)"
    using save_other_keys[of _ s J X b] unfolding key by blast
  have save_key: "\<forall>t ls. accessible (localStorage b) \<and> stringify J (JArr X) = Inr t
           \<and> setItem (''klinecharts-pro-overlays-'' @ s) t (localStorage b) = Inr ls \<longrightarrow>
         getItem (''klinecharts-pro-overlays-'' @ s)
           (localStorage (snd (saveOverlaysToLocalStorage J s X b))) = Some t"
    by (auto simp: save_unfold key getItem_setItem)
  have clear_frame: "\<forall>k. k \<noteq> ''klinecharts-pro-overlays-'' @ s \<longrightarrow>
         getItem k (localStorage (snd (clearOverlaysFromLocalStorage s b))) = getItem k (localStorage b)"
    using clear_other_keys[of _ s b] unfolding key by blast
  have clear_key: "accessible (localStorage b) \<longrightarrow>
         getItem (''klinecharts-pro-overlays-'' @ s)
           (localStorage (snd (clearOverlaysFromLocalStorage s b))) = None"
    by (simp add: clear_unfold key getItem_removeItem)
  have load_key: "accessible (localStorage b) \<longrightarrow>
         fst (loadOverlaysFromLocalStorage J s b) =
           (case getItem (''klinecharts-pro-overlays-'' @ s) (localStorage b) of
              None \<Rightarrow> Inr (JArr [])
            | Some d \<Rightarrow>
                if d = [] then Inr (JArr [])
                else (case parse J d of Inl e \<Rightarrow> Inr (JArr []) | Inr v \<Rightarrow> Inr v))"
    by (simp add: load_unfold key split: option.splits sum.splits)
  from key pre save_frame save_key clear_frame clear_key load_key show ?thesis
    by blast
qed

theorem storage_key_format_witness:
  "getStorageKey ''AAPL'' = ''klinecharts-pro-overlays-AAPL''
   \<and> accessible (localStorage fresh_browser)
   \<and> stringify json (JArr []) = Inr ''[]''
   \<and> setItem ''klinecharts-pro-overlays-AAPL'' ''[]'' (localStorage fresh_browser)
       = Inr ((localStorage fresh_browser)\<lparr>entries := [(''klinecharts-pro-overlays-AAPL'', ''[]'')]\<rparr>)
   \<and> getItem ''klinecharts-pro-overlays-AAPL''
        (localStorage (snd (saveOverlaysToLocalStorage json ''AAPL'' [] fresh_browser))) = Some ''[]''
   \<and> ''klinecharts-pro-overlays-GOOGL'' \<noteq> ''klinecharts-pro-overlays-AAPL''
   \<and> getItem ''klinecharts-pro-overlays-GOOGL''
        (localStorage (snd (saveOverlaysToLocalStorage json ''AAPL'' [] fresh_browser))) = None
   \<and> getItem ''klinecharts-pro-overlays-AAPL''
        (localStorage (snd (clearOverlaysFromLocalStorage ''AAPL'' fresh_browser))) = None"
proof -
  have a: "accessible (localStorage fresh_browser)" by (simp add: fresh_browser_def)
  have t: "stringify json (JArr []) = Inr ''[]''" by (simp add: json_def)
  have w: "setItem ''klinecharts-pro-overlays-AAPL'' ''[]'' (localStorage fresh_browser)
       = Inr ((localStorage fresh_browser)\<lparr>entries := [(''klinecharts-pro-overlays-AAPL'', ''[]'')]\<rparr>)"
    by (simp add: setItem_def fresh_browser_def storage_size_def)
  have n: "''klinecharts-pro-overlays-GOOGL'' \<noteq> ''klinecharts-pro-overlays-AAPL''" by simp
  have g: "getItem ''klinecharts-pro-overlays-GOOGL'' (localStorage fresh_browser) = None"
    by (simp add: getItem_def fresh_browser_def)
  note k = storage_key_format[of "''AAPL''" json "[]" fresh_browser]
  from k have 1: "getStorageKey ''AAPL'' = ''klinecharts-pro-overlays-AAPL''" by simp
  from k a t w have 2: "getItem ''klinecharts-pro-overlays-AAPL''
        (localStorage (snd (saveOverlaysToLocalStorage json ''AAPL'' [] fresh_browser))) = Some ''[]''"
    by simp
  from k n g have 3: "getItem ''klinecharts-pro-overlays-GOOGL''
        (localStorage (snd (saveOverlaysToLocalStorage json ''AAPL'' [] fresh_browser))) = None"
    by simp
  from k a have 4: "getItem ''klinecharts-pro-overlays-AAPL''
        (localStorage (snd (clearOverlaysFromLocalStorage ''AAPL'' fresh_browser))) = None"
    by simp
  from 1 a t w 2 n 3 4 show ?thesis by blast
qed

text \<open>
  C6. For two distinct symbols and two lists of records, after saving one list
  under each symbol, in either order, loading each symbol returns its own
  list. The storage is reachable and has room for both texts, and both lists
  survive the JSON round trip. (The lists need not be disjoint or non-empty
  for this; in the example they are.) And whatever the state of the browser,
  saving or clearing under one symbol leaves the text stored under the other
  symbol's key as it was.
\<close>

theorem symbol_isolation:
  assumes "s1 \<noteq> s2"
    and "accessible (localStorage b)"
    and "json_roundtrips J (JArr X)" and "json_roundtrips J (JArr Y)"
    and "storage_size (entries (localStorage b))
           + (length (getStorageKey s1) + text_size J (JArr X))
           + (length (getStorageKey s2) + text_size J (JArr Y)) \<le> quota (localStorage b)"
  shows "fst (loadOverlaysFromLocalStorage J s1
            (snd (saveOverlaysToLocalStorage J s2 Y (snd (saveOverlaysToLocalStorage J s1 X b)))))
           = Inr (JArr X)
       \<and> fst (loadOverlaysFromLocalStorage J s2
            (snd (saveOverlaysToLocalStorage J s2 Y (snd (saveOverlaysToLocalStorage J s1 X b)))))
           = Inr (JArr Y)
       \<and> fst (loadOverlaysFromLocalStorage J s1
            (snd (saveOverlaysToLocalStorage J s1 X (snd (saveOverlaysToLocalStorage J s2 Y b)))))
           = Inr (JArr X)
       \<and> fst (loadOverlaysFromLocalStorage J s2
            (snd (saveOverlaysToLocalStorage J s1 X (snd (saveOverlaysToLocalStorage J s2 Y b)))))
           = Inr (JArr Y)
       \<and> getItem (getStorageKey s1) (localStorage (snd (saveOverlaysToLocalStorage J s2 Y b')))
           = getItem (getStorageKey s1) (localStorage b')
       \<and> getItem (getStorageKey s1) (localStorage (snd (clearOverlaysFromLocalStorage s2 b')))
           = getItem (getStorageKey s1) (localStorage b')"
proof -
  have room': "storage_size (entries (localStorage b))
           + (length (getStorageKey s2) + text_size J (JArr Y))
           + (length (getStorageKey s1) + text_size J (JArr X)) \<le> quota (localStorage b)"
    using assms(5) by simp
  have ne': "s2 \<noteq> s1" using assms(1) by simp
  have k: "getStorageKey s1 \<noteq> getStorageKey s2"
    using assms(1) by (simp add: getStorageKey_inj)
  show ?thesis
    using load_after_two_saves[OF assms] load_after_two_saves[OF ne' assms(2) assms(4) assms(3) room']
      save_other_keys[OF k, of J Y b'] clear_other_keys[OF k, of b']
    by simp
qed

theorem symbol_isolation_witness:
  "''AAPL'' \<noteq> ''BTCUSD''
   \<and> accessible (localStorage fresh_browser)
   \<and> json_roundtrips json (JArr [serializeOverlay line_o1])
   \<and> json_roundtrips json (JArr [serializeOverlay segment_o2])
   \<and> fst (loadOverlaysFromLocalStorage json ''AAPL''
        (snd (saveOverlaysToLocalStorage json ''BTCUSD'' [serializeOverlay segment_o2]
          (snd (saveOverlaysToLocalStorage json ''AAPL'' [serializeOverlay line_o1] fresh_browser)))))
       = Inr (JArr [serializeOverlay line_o1])
   \<and> fst (loadOverlaysFromLocalStorage json ''BTCUSD''
        (snd (saveOverlaysToLocalStorage json ''BTCUSD'' [serializeOverlay segment_o2]
          (snd (saveOverlaysToLocalStorage json ''AAPL'' [serializeOverlay line_o1] fresh_browser)))))
       = Inr (JArr [serializeOverlay segment_o2])"
proof -
  have ne: "''AAPL'' \<noteq> ''BTCUSD''" by simp
  from symbol_isolation[OF ne fresh_browser_accessible line_o1_roundtrips segment_o2_roundtrips fresh_browser_room] ne fresh_browser_accessible line_o1_roundtrips segment_o2_roundtrips
  show ?thesis by blast
qed
section \<open>Properties of the storage facade\<close>

text \<open>
  \<open>syncFromCloud\<close> with no provider; with a provider whose download
  succeeds, in terms of the facade as the pending tasks left it; and what is
  then under the key of that facade's symbol when the storage takes the
  write.
\<close>

lemma syncFromCloud_unbound:
  "cloudSyncProvider this = None \<Longrightarrow> syncFromCloud J pending (this, c, b) = (Inr [], this, c, b)"
  by (simp add: syncFromCloud_def)

lemma syncFromCloud_resumes:
  assumes "cloudSyncProvider this = Some provider"
    and "download provider (symbol this) c = (Inr overlays, c')"
    and "pending (this, c', b) = (this', c'', b')"
  shows "syncFromCloud J pending (this, c, b)
         = (Inr overlays, this', c'', snd (saveOverlaysToLocalStorage J (symbol this') overlays b'))"
proof -
  have "fst (saveOverlaysToLocalStorage J (symbol this') overlays b') = Inr ()"
    by (rule save_returns)
  then obtain b'' where "saveOverlaysToLocalStorage J (symbol this') overlays b' = (Inr (), b'')"
    by (cases "saveOverlaysToLocalStorage J (symbol this') overlays b'") simp
  then show ?thesis
    using assms by (simp add: syncFromCloud_def OverlayStorage_save_def)
qed

lemma syncFromCloud_stores:
  assumes "cloudSyncProvider this = Some provider"
    and "download provider (symbol this) c = (Inr overlays, c')"
    and "pending (this, c', b) = (this', c'', b')"
    and "accessible (localStorage b')"
    and "stringify J (JArr overlays) = Inr t"
    and "setItem (getStorageKey (symbol this')) t (localStorage b') = Inr ls"
  shows "fst (syncFromCloud J pending (this, c, b)) = Inr overlays
     \<and> getItem (getStorageKey (symbol this'))
          (localStorage (snd (snd (snd (syncFromCloud J pending (this, c, b)))))) = Some t"
proof -
  have "syncFromCloud J pending (this, c, b)
         = (Inr overlays, this', c'', snd (saveOverlaysToLocalStorage J (symbol this') overlays b'))"
    using assms(1,2,3) by (rule syncFromCloud_resumes[where pending = pending])
  then show ?thesis
    using assms(4,5,6) by (simp add: save_unfold getItem_setItem)
qed

text \<open>
  C8. A facade bound to AAPL, with a provider that has one record for AAPL
  and none for GOOGL. \<open>syncFromCloud\<close> downloads for AAPL; while the
  download is pending another task calls \<open>setSymbol\<close> with GOOGL. The
  record is returned, but \<open>this.save\<close> reads \<open>this.symbol\<close> after the
  \<open>await\<close>: the AAPL record is stored under the GOOGL key and the AAPL key
  stays empty. When no task runs in between, the record is stored under the
  AAPL key, as claimed.
\<close>

theorem syncFromCloud_saves_under_later_symbol:
  "symbol aapl_facade = ''AAPL''
   \<and> download memory_provider ''AAPL'' aapl_cloud = (Inr [serializeOverlay line_o1], aapl_cloud)
   \<and> download memory_provider ''GOOGL'' aapl_cloud = (Inr [], aapl_cloud)
   \<and> fst (syncFromCloud json switch_to_googl (aapl_facade, aapl_cloud, fresh_browser))
       = Inr [serializeOverlay line_o1]
   \<and> getItem ''klinecharts-pro-overlays-AAPL''
        (localStorage (snd (snd (snd (syncFromCloud json switch_to_googl
           (aapl_facade, aapl_cloud, fresh_browser)))))) = None
   \<and> getItem ''klinecharts-pro-overlays-GOOGL''
        (localStorage (snd (snd (snd (syncFromCloud json switch_to_googl
           (aapl_facade, aapl_cloud, fresh_browser))))))
       = Some (json_text (JArr [serializeOverlay line_o1]))
   \<and> fst (loadOverlaysFromLocalStorage json ''GOOGL''
        (snd (snd (snd (syncFromCloud json switch_to_googl
           (aapl_facade, aapl_cloud, fresh_browser))))))
       = Inr (JArr [serializeOverlay line_o1])
   \<and> fst (syncFromCloud json no_task (aapl_facade, aapl_cloud, fresh_browser))
       = Inr [serializeOverlay line_o1]
   \<and> getItem ''klinecharts-pro-overlays-AAPL''
        (localStorage (snd (snd (snd (syncFromCloud json no_task
           (aapl_facade, aapl_cloud, fresh_browser))))))
       = Some (json_text (JArr [serializeOverlay line_o1]))
   \<and> getItem ''klinecharts-pro-overlays-GOOGL''
        (localStorage (snd (snd (snd (syncFromCloud json no_task
           (aapl_facade, aapl_cloud, fresh_browser)))))) = None"
  by code_simp
section \<open>Properties of the overlay lifecycle\<close>

lemma getOverlayById_Some:
  "getOverlayById i chart = Some overlay \<Longrightarrow> id' overlay = i \<and> overlay \<in> set chart"
  by (auto simp: getOverlayById_def find_Some_iff)


lemma update_map_values:
  "distinct (map fst m) \<Longrightarrow> k \<in> fst ` set m \<Longrightarrow>
   AList.update k x (map (\<lambda>(i, v). (i, F i v)) m)
     = map (\<lambda>(i, v). (i, if i = k then x else F i v)) m"
proof (induction m)
  case Nil
  then show ?case by simp
next
  case (Cons a m)
  obtain i v where a: "a = (i, v)" by (cases a)
  show ?case
  proof (cases "i = k")
    case True
    then have "k \<notin> fst ` set m" using Cons.prems(1) by (auto simp: a)
    then have "map (\<lambda>(i, v). (i, if i = k then x else F i v)) m = map (\<lambda>(i, v). (i, F i v)) m"
      by (intro map_cong) (auto simp: image_iff)
    with True show ?thesis by (simp add: a)
  next
    case False
    then have "k \<in> fst ` set m" using Cons.prems(2) by (auto simp: a)
    moreover have "distinct (map fst m)" using Cons.prems(1) by simp
    ultimately show ?thesis using False Cons.IH by (simp add: a)
  qed
qed

lemma refresh_foldl:
  assumes "distinct (map fst m)" and "set ks \<subseteq> fst ` set m"
  shows "foldl (\<lambda>acc i. case getOverlayById i chart of
                          None \<Rightarrow> acc
                        | Some overlay \<Rightarrow> AList.update i overlay acc) m ks
         = map (\<lambda>(i, v). (i, if i \<in> set ks
                               then (case getOverlayById i chart of None \<Rightarrow> v | Some cur \<Rightarrow> cur)
                               else v)) m"
  using assms(2)
proof (induction ks rule: rev_induct)
  case Nil
  then show ?case by simp
next
  case (snoc k ks)
  let ?F = "\<lambda>i v. if i \<in> set ks
               then (case getOverlayById i chart of None \<Rightarrow> v | Some cur \<Rightarrow> cur) else v"
  have IH: "foldl (\<lambda>acc i. case getOverlayById i chart of
                          None \<Rightarrow> acc
                        | Some overlay \<Rightarrow> AList.update i overlay acc) m ks
         = map (\<lambda>(i, v). (i, ?F i v)) m"
    using snoc by simp
  have k: "k \<in> fst ` set m" using snoc.prems by simp
  show ?case
  proof (cases "getOverlayById k chart")
    case None
    then show ?thesis
      by (simp add: IH) (auto intro!: map_cong)
  next
    case (Some cur)
    have "AList.update k cur (map (\<lambda>(i, v). (i, ?F i v)) m)
          = map (\<lambda>(i, v). (i, if i = k then cur else ?F i v)) m"
      by (rule update_map_values[OF assms(1) k])
    then show ?thesis
      using Some by (simp add: IH) (auto intro!: map_cong simp: Some)
  qed
qed

lemma refresh_map:
  assumes "distinct (map fst m)"
  shows "refresh chart m
         = map (\<lambda>(i, v). (i, case getOverlayById i chart of None \<Rightarrow> v | Some cur \<Rightarrow> cur)) m"
proof -
  have "refresh chart m
        = map (\<lambda>(i, v). (i, if i \<in> set (map fst m)
                               then (case getOverlayById i chart of None \<Rightarrow> v | Some cur \<Rightarrow> cur)
                               else v)) m"
    unfolding refresh_def by (rule refresh_foldl[OF assms]) simp
  also have "\<dots> = map (\<lambda>(i, v). (i, case getOverlayById i chart of None \<Rightarrow> v | Some cur \<Rightarrow> cur)) m"
    by (intro map_cong refl) force
  finally show ?thesis .
qed

lemma refresh_keys: "distinct (map fst m) \<Longrightarrow> map fst (refresh chart m) = map fst m"
  by (simp add: refresh_map) (induction m; auto)

lemma refresh_keyed:
  assumes "keyed_by_id m"
  shows "keyed_by_id (refresh chart m)"
proof -
  have d: "distinct (map fst m)" using assms by (simp add: keyed_by_id_def)
  have "\<forall>(i, overlay) \<in> set (refresh chart m). id' overlay = i"
    using assms
    by (auto simp: refresh_map[OF d] keyed_by_id_def split: option.splits
        dest: getOverlayById_Some)
  then show ?thesis using d by (simp add: keyed_by_id_def refresh_keys)
qed

lemma set_delete_subset: "set (AList.delete i m) \<subseteq> set m"
  by (induction m) auto

lemma delete_keyed: "keyed_by_id m \<Longrightarrow> keyed_by_id (AList.delete i m)"
  using set_delete_subset[of i m] by (auto simp: keyed_by_id_def distinct_delete)

lemma save_outcome:
  "(\<exists>t ls. accessible (localStorage b) \<and> stringify J (JArr X) = Inr t
        \<and> setItem (getStorageKey s) t (localStorage b) = Inr ls
        \<and> saveOverlaysToLocalStorage J s X b = (Inr (), b\<lparr>localStorage := ls\<rparr>))
   \<or> (\<exists>e. saveOverlaysToLocalStorage J s X b
            = (Inr (), console_error ''Failed to save overlays to localStorage:'' e b))"
  by (auto simp: save_unfold split: sum.splits)

lemma save_console:
  "console (snd (saveOverlaysToLocalStorage J s X b)) = console b
   \<or> (\<exists>x. console (snd (saveOverlaysToLocalStorage J s X b)) = console b @ [x])"
  using save_outcome[of b J X s] by (auto simp: console_error_def)

lemma save_quiet:
  assumes "console (snd (saveOverlaysToLocalStorage J s X b)) = console b"
  shows "accessible (localStorage (snd (saveOverlaysToLocalStorage J s X b)))
     \<and> (\<exists>t. stringify J (JArr X) = Inr t
           \<and> getItem (getStorageKey s) (localStorage (snd (saveOverlaysToLocalStorage J s X b))) = Some t)"
  using save_outcome[of b J X s] assms
  by (auto simp: console_error_def getItem_setItem dest: setItem_frame)

lemma saveOverlays_unfold:
  assumes "overlayPersistenceEnabled st" and "overlayStorage st = Some storage"
    and "widget st = Some chart"
  shows "saveOverlays J st =
     (Inr (), st\<lparr>overlayMap := refresh chart (overlayMap st),
                 window := snd (saveOverlaysToLocalStorage J (symbol storage)
                   (map serializeOverlay (map snd (refresh chart (overlayMap st)))) (window st))\<rparr>)"
proof -
  obtain b where b: "saveOverlaysToLocalStorage J (symbol storage)
      (map serializeOverlay (map snd (refresh chart (overlayMap st)))) (window st) = (Inr (), b)"
    using save_returns[of J "symbol storage"
        "map serializeOverlay (map snd (refresh chart (overlayMap st)))" "window st"]
    by (metis prod.collapse)
  show ?thesis
    using assms by (simp add: saveOverlays_def OverlayStorage_save_def Let_def b del: map_map)
qed


lemma untrack_step:
  assumes "mounted st storage chart"
  shows "\<exists>st1. untrackOverlay J i st = (Inr (), st1) \<and> mounted st1 storage chart
     \<and> set (map fst (overlayMap st1)) = set (map fst (overlayMap st)) - {i}
     \<and> (\<exists>xs. console (window st1) = console (window st) @ xs)
     \<and> (console (window st1) = console (window st) \<longrightarrow> persisted J storage st1)"
proof -
  let ?m = "AList.delete i (overlayMap st)"
  let ?st = "st\<lparr>overlayMap := ?m\<rparr>"
  let ?X = "map serializeOverlay (map snd (refresh chart ?m))"
  let ?b = "snd (saveOverlaysToLocalStorage J (symbol storage) ?X (window st))"
  let ?st1 = "st\<lparr>overlayMap := refresh chart ?m, window := ?b\<rparr>"
  have en: "overlayPersistenceEnabled st" and os: "overlayStorage st = Some storage"
    and w: "widget st = Some chart" and k: "keyed_by_id (overlayMap st)"
    using assms by (simp_all add: mounted_def)
  have k': "keyed_by_id ?m" using k by (rule delete_keyed)
  then have d': "distinct (map fst ?m)" by (simp add: keyed_by_id_def)
  have "untrackOverlay J i st = saveOverlays J ?st"
    using en by (simp add: untrackOverlay_def)
  also have "\<dots> = (Inr (), ?st1)"
    using saveOverlays_unfold[of ?st storage chart J] en os w by simp
  finally have u: "untrackOverlay J i st = (Inr (), ?st1)" .
  have m1: "mounted ?st1 storage chart"
    using en os w refresh_keyed[OF k'] by (simp add: mounted_def)
  have ks: "set (map fst (overlayMap ?st1)) = set (map fst (overlayMap st)) - {i}"
    by (simp add: refresh_keys[OF d'] delete_keys)
  have c: "\<exists>xs. console (window ?st1) = console (window st) @ xs"
    using save_console[of J "symbol storage" ?X "window st"] by auto
  have q: "console (window ?st1) = console (window st) \<longrightarrow> persisted J storage ?st1"
    using save_quiet[of J "symbol storage" ?X "window st"] by (simp add: persisted_def)
  from u m1 ks c q show ?thesis by blast
qed

lemma forEach_untrack:
  assumes "mounted st storage chart" and "forEach (untrackOverlay J) ids st = (r, st')"
  shows "r = Inr () \<and> mounted st' storage chart
     \<and> set (map fst (overlayMap st')) = set (map fst (overlayMap st)) - set ids
     \<and> (\<exists>xs. console (window st') = console (window st) @ xs)
     \<and> (ids \<noteq> [] \<and> console (window st') = console (window st) \<longrightarrow> persisted J storage st')"
  using assms
proof (induction ids arbitrary: st)
  case Nil
  then show ?case by simp
next
  case (Cons i ids)
  from untrack_step[OF Cons.prems(1), of J i]
  obtain st1 xs1 where u: "untrackOverlay J i st = (Inr (), st1)"
    and m1: "mounted st1 storage chart"
    and k1: "set (map fst (overlayMap st1)) = set (map fst (overlayMap st)) - {i}"
    and c1: "console (window st1) = console (window st) @ xs1"
    and q1: "console (window st1) = console (window st) \<longrightarrow> persisted J storage st1"
    by blast
  from Cons.prems(2) u have rest: "forEach (untrackOverlay J) ids st1 = (r, st')" by simp
  from Cons.IH[OF m1 rest]
  obtain xs where r: "r = Inr ()" and m': "mounted st' storage chart"
    and k': "set (map fst (overlayMap st')) = set (map fst (overlayMap st1)) - set ids"
    and c': "console (window st') = console (window st1) @ xs"
    and q': "ids \<noteq> [] \<and> console (window st') = console (window st1) \<longrightarrow> persisted J storage st'"
    by blast
  have ks: "set (map fst (overlayMap st')) = set (map fst (overlayMap st)) - set (i # ids)"
    using k1 k' by auto
  have cs: "\<exists>xs. console (window st') = console (window st) @ xs"
    using c1 c' by simp
  have "persisted J storage st'" if quiet: "console (window st') = console (window st)"
  proof -
    from quiet c1 c' have e: "xs1 = []" "xs = []" by simp_all
    show ?thesis
    proof (cases "ids = []")
      case True
      then have "st' = st1" using rest by simp
      then show ?thesis using q1 c1 e by simp
    next
      case False
      then show ?thesis using q' c' e by simp
    qed
  qed
  with r m' ks cs show ?case by blast
qed

lemma serialized_id: "get (serializeOverlay overlay) ''id'' = JStr (id' overlay)"
  by (simp add: serializeOverlay_def)

text \<open>
  The tracked map starts empty, and every operation of the component that
  changes it keeps it keyed by id.
\<close>

lemma set_update_subset: "set (AList.update k v m) \<subseteq> insert (k, v) (set m)"
  by (induction m) auto

lemma update_keyed:
  assumes "keyed_by_id m" and "id' overlay = i"
  shows "keyed_by_id (AList.update i overlay m)"
  using assms set_update_subset[of i overlay m]
  by (auto simp: keyed_by_id_def distinct_update)

lemma trackOverlay_keyed:
  "keyed_by_id (overlayMap st) \<Longrightarrow> keyed_by_id (overlayMap (trackOverlay i st))"
  by (auto simp: trackOverlay_def split: option.splits bool.splits
      dest: getOverlayById_Some intro: update_keyed)

lemma track_created_keyed:
  "keyed_by_id (overlayMap st) \<Longrightarrow>
   keyed_by_id (overlayMap
     (foldl (\<lambda>s i. case getOverlayById i chart of
                      None \<Rightarrow> s
                    | Some overlay \<Rightarrow> s\<lparr>overlayMap := AList.update i overlay (overlayMap s)\<rparr>)
        st ids))"
proof (induction ids arbitrary: st)
  case Nil
  then show ?case by simp
next
  case (Cons i ids)
  show ?case
  proof (cases "getOverlayById i chart")
    case None
    then show ?thesis using Cons by simp
  next
    case (Some overlay)
    then have "keyed_by_id (AList.update i overlay (overlayMap st))"
      using Cons.prems by (auto dest: getOverlayById_Some intro: update_keyed)
    then show ?thesis using Some Cons.IH[of "st\<lparr>overlayMap := AList.update i overlay (overlayMap st)\<rparr>"]
      by simp
  qed
qed

lemma loadOverlay_keyed:
  "keyed_by_id (overlayMap st) \<Longrightarrow> keyed_by_id (overlayMap (snd (loadOverlay create overlayData st)))"
  by (auto simp: loadOverlay_def Let_def split: sum.splits option.splits prod.splits
      intro: track_created_keyed)

lemma forEach_loadOverlay_keyed:
  "keyed_by_id (overlayMap st) \<Longrightarrow>
   keyed_by_id (overlayMap (snd (forEach (loadOverlay create) items st)))"
proof (induction items arbitrary: st)
  case Nil
  then show ?case by simp
next
  case (Cons x items)
  from loadOverlay_keyed[OF Cons.prems, of create x]
  show ?case
    by (cases "loadOverlay create x st") (auto split: sum.splits intro: Cons.IH)
qed

lemma loadOverlays_keyed:
  "keyed_by_id (overlayMap st) \<Longrightarrow> keyed_by_id (overlayMap (snd (loadOverlays J create st)))"
  using forEach_loadOverlay_keyed[of "st\<lparr>window := b\<rparr>" for b]
  by (auto simp: loadOverlays_def split: option.splits bool.splits prod.splits sum.splits jsval.splits
      intro: forEach_loadOverlay_keyed)

lemma saveOverlays_keyed:
  "keyed_by_id (overlayMap st) \<Longrightarrow> keyed_by_id (overlayMap (snd (saveOverlays J st)))"
  by (auto simp: saveOverlays_def Let_def split: option.splits bool.splits prod.splits
      intro: refresh_keyed)

lemma untrackOverlay_keyed:
  "keyed_by_id (overlayMap st) \<Longrightarrow> keyed_by_id (overlayMap (snd (untrackOverlay J i st)))"
  using saveOverlays_keyed[of "st\<lparr>overlayMap := AList.delete i (overlayMap st)\<rparr>" J]
  by (simp add: untrackOverlay_def delete_keyed)

lemma clearOverlays_keyed:
  "keyed_by_id (overlayMap st) \<Longrightarrow> keyed_by_id (overlayMap (snd (clearOverlays J st)))"
  using saveOverlays_keyed[of "st\<lparr>overlayMap := []\<rparr>" J]
  by (auto simp: clearOverlays_def keyed_by_id_def)

lemma after_removal_eq:
  "after_removal = forEach (untrackOverlay json) [''o1'', ''o2''] (three_session\<lparr>widget := Some [note_o3]\<rparr>)"
  by (simp add: after_removal_def onRemoveClick_def three_session_def tracked_session_def
      removeOverlay_def line_o1_def segment_o2_def note_o3_def)

text \<open>
  Which ids each operation adds to the tracked map, and that loading never
  removes one.
\<close>

lemma trackOverlay_ids:
  assumes "overlayPersistenceEnabled st" and "widget st = Some chart"
  shows "set (map fst (overlayMap (trackOverlay i st)))
         = set (map fst (overlayMap st)) \<union> (if getOverlayById i chart = None then {} else {i})"
  using assms by (auto simp: trackOverlay_def dom_update split: option.splits)

lemma track_created_ids:
  "set (map fst (overlayMap
     (foldl (\<lambda>s i. case getOverlayById i chart of
                      None \<Rightarrow> s
                    | Some overlay \<Rightarrow> s\<lparr>overlayMap := AList.update i overlay (overlayMap s)\<rparr>)
        st ids)))
   = set (map fst (overlayMap st)) \<union> {i \<in> set ids. getOverlayById i chart \<noteq> None}"
proof (induction ids arbitrary: st)
  case Nil
  then show ?case by simp
next
  case (Cons i ids)
  show ?case
  proof (cases "getOverlayById i chart")
    case None
    then show ?thesis using Cons[of st] by auto
  next
    case (Some overlay)
    then show ?thesis
      using Cons[of "st\<lparr>overlayMap := AList.update i overlay (overlayMap st)\<rparr>"]
      by (auto simp: dom_update)
  qed
qed

lemma loadOverlay_ids:
  assumes "widget st = Some chart" and "deserializeOverlay overlayData = Inr overlayCreate"
    and "create overlayCreate chart = (result, chart')"
  shows "set (map fst (overlayMap (snd (loadOverlay create overlayData st))))
         = set (map fst (overlayMap st))
           \<union> {i \<in> set (created_ids result). getOverlayById i chart' \<noteq> None}"
  using assms track_created_ids[of chart' "st\<lparr>widget := Some chart'\<rparr>" "created_ids result"]
  by (simp add: loadOverlay_def)

lemma loadOverlay_grows:
  "set (map fst (overlayMap st)) \<subseteq> set (map fst (overlayMap (snd (loadOverlay create overlayData st))))"
proof (cases "deserializeOverlay overlayData")
  case (Inl e)
  then show ?thesis by (simp add: loadOverlay_def)
next
  case (Inr overlayCreate)
  show ?thesis
  proof (cases "widget st")
    case None
    then show ?thesis using Inr by (simp add: loadOverlay_def)
  next
    case (Some chart)
    obtain result chart' where c: "create overlayCreate chart = (result, chart')"
      by (cases "create overlayCreate chart")
    show ?thesis
      unfolding loadOverlay_ids[where create = create, OF Some Inr c] by blast
  qed
qed

lemma forEach_loadOverlay_grows:
  "set (map fst (overlayMap st))
   \<subseteq> set (map fst (overlayMap (snd (forEach (loadOverlay create) items st))))"
proof (induction items arbitrary: st)
  case Nil
  then show ?case by simp
next
  case (Cons x items)
  obtain r st1 where l: "loadOverlay create x st = (r, st1)"
    by (cases "loadOverlay create x st")
  have 1: "set (map fst (overlayMap st)) \<subseteq> set (map fst (overlayMap st1))"
    using loadOverlay_grows[of st create x] l by simp
  show ?case
  proof (cases r)
    case (Inl e)
    then show ?thesis using l 1 by simp
  next
    case (Inr u)
    then show ?thesis using l 1 Cons.IH[of st1] by auto
  qed
qed

lemma loadOverlays_grows:
  "set (map fst (overlayMap st)) \<subseteq> set (map fst (overlayMap (snd (loadOverlays J create st))))"
proof -
  have *: "a \<in> fst ` set (overlayMap (snd (forEach (loadOverlay create) items (st\<lparr>window := b\<rparr>))))"
    if "(a, x) \<in> set (overlayMap st)" for a x items b
    using forEach_loadOverlay_grows[of "st\<lparr>window := b\<rparr>" create items] that by force
  show ?thesis
    by (auto simp: loadOverlays_def split: option.splits bool.splits prod.splits sum.splits jsval.splits
        intro: *)
qed

lemma serialized_ids:
  "\<forall>(i, overlay) \<in> set m. id' overlay = i \<Longrightarrow>
   map (\<lambda>record. get record ''id'') (map serializeOverlay (map snd m)) = map JStr (map fst m)"
  by (induction m) (auto simp: serialized_id)

text \<open>
  C3. The scenario: the component shows AAPL, tracks two overlays and has
  saved them under the AAPL key; the symbol changes to GOOGL, for which
  nothing is stored. Afterwards the engine holds no overlay and nothing is
  tracked, as claimed. But the AAPL key does not keep its two records: the
  effect calls \<open>clearOverlays\<close> before it rebinds the facade, and
  \<open>clearOverlays\<close> saves the emptied map under the old symbol, so the AAPL
  key now holds the empty array.
\<close>

theorem symbol_switch_overwrites_old_symbol:
  "map fst (overlayMap aapl_session) = [''o1'', ''o2'']
   \<and> getItem ''klinecharts-pro-overlays-AAPL'' (localStorage (window aapl_session))
       = Some (json_text (JArr [serializeOverlay line_o1, serializeOverlay segment_o2]))
   \<and> fst (loadOverlaysFromLocalStorage json ''AAPL'' (window aapl_session))
       = Inr (JArr [serializeOverlay line_o1, serializeOverlay segment_o2])
   \<and> fst (symbolEffect json (Some ''AAPL'') ''GOOGL'' aapl_session) = Inr (Some ''GOOGL'')
   \<and> widget googl_session = Some []
   \<and> overlayMap googl_session = []
   \<and> map_option symbol (overlayStorage googl_session) = Some ''GOOGL''
   \<and> getItem ''klinecharts-pro-overlays-GOOGL'' (localStorage (window googl_session)) = None
   \<and> getItem ''klinecharts-pro-overlays-AAPL'' (localStorage (window googl_session)) = Some ''[]''
   \<and> fst (loadOverlaysFromLocalStorage json ''AAPL'' (window googl_session)) = Inr (JArr [])"
  by code_simp

text \<open>
  C4, as claimed: the tracked ids are always ids of overlays in the engine;
  whenever \<open>saveOverlays\<close> persists, an id whose overlay is no longer in the
  engine is dropped from the tracked map and is not among the persisted
  records. Here the engine holds only \<open>o1\<close> while \<open>o1\<close> and \<open>o2\<close>
  are tracked; after \<open>saveOverlays\<close> both are still tracked and both
  records are in the storage.
\<close>

theorem stale_id_persisted_counterexample:
  "widget stale_session = Some [line_o1]
   \<and> getOverlayById ''o2'' [line_o1] = None
   \<and> widget (snd (saveOverlays json stale_session)) = Some [line_o1]
   \<and> map fst (overlayMap (snd (saveOverlays json stale_session))) = [''o1'', ''o2'']
   \<and> fst (loadOverlaysFromLocalStorage json ''AAPL'' (window (snd (saveOverlays json stale_session))))
       = Inr (JArr [serializeOverlay line_o1, serializeOverlay segment_o2])"
  by code_simp

text \<open>
  C4, amended. The component has no operation that drops the id of an overlay
  which the engine has removed on its own. With persistence on and the
  component mounted:
  \<^item> \<open>saveOverlays\<close> returns normally, leaves the engine and the tracked
    ids as they are, replaces each tracked overlay that the engine still has
    by the engine's current one and keeps every other entry; when the storage
    takes the write, the text under the current symbol's key is the JSON text
    of the serialization of all tracked entries, and where every entry is
    stored under its overlay's id the ids of these records are the tracked
    ids, in order; the auto-save tick changes no tracked id either;
  \<^item> \<open>trackOverlay\<close> adds the given id exactly when the engine holds an
    overlay with that id, and removes none;
  \<^item> loading one record adds exactly those ids returned by the engine's
    \<open>createOverlay\<close> that the engine then holds, and \<open>loadOverlays\<close>
    removes none;
  \<^item> \<open>untrackOverlay\<close> removes exactly the given id and \<open>clearOverlays\<close>
    removes all.
  So when the tracked ids are ids of overlays in the engine, they still are
  after \<open>trackOverlay\<close>, \<open>saveOverlays\<close> and \<open>untrackOverlay\<close>, none of
  which changes the engine.
\<close>

theorem saveOverlays_keeps_tracked_ids:
  assumes "overlayPersistenceEnabled st" and "overlayStorage st = Some storage"
    and "widget st = Some chart" and "distinct (map fst (overlayMap st))"
  shows "fst (saveOverlays J st) = Inr ()
     \<and> widget (snd (saveOverlays J st)) = Some chart
     \<and> map fst (overlayMap (snd (saveOverlays J st))) = map fst (overlayMap st)
     \<and> overlayMap (snd (saveOverlays J st))
         = map (\<lambda>(i, overlay). (i, case getOverlayById i chart of
                                       None \<Rightarrow> overlay
                                     | Some current \<Rightarrow> current)) (overlayMap st)
     \<and> window (snd (saveOverlays J st))
         = snd (saveOverlaysToLocalStorage J (symbol storage)
             (map serializeOverlay (map snd (overlayMap (snd (saveOverlays J st))))) (window st))
     \<and> (\<forall>t ls. accessible (localStorage (window st))
           \<and> stringify J (JArr (map serializeOverlay (map snd (overlayMap (snd (saveOverlays J st))))))
               = Inr t
           \<and> setItem (getStorageKey (symbol storage)) t (localStorage (window st)) = Inr ls \<longrightarrow>
         getItem (getStorageKey (symbol storage)) (localStorage (window (snd (saveOverlays J st))))
           = Some t)
     \<and> ((\<forall>(i, overlay) \<in> set (overlayMap st). id' overlay = i) \<longrightarrow>
         map (\<lambda>record. get record ''id'')
             (map serializeOverlay (map snd (overlayMap (snd (saveOverlays J st)))))
           = map JStr (map fst (overlayMap st)))
     \<and> map fst (overlayMap (snd (autoSaveTick J st))) = map fst (overlayMap st)
     \<and> set (map fst (overlayMap (trackOverlay i st)))
         = set (map fst (overlayMap st)) \<union> (if getOverlayById i chart = None then {} else {i})
     \<and> (\<forall>overlayCreate result chart'.
           deserializeOverlay overlayData = Inr overlayCreate
           \<and> create overlayCreate chart = (result, chart') \<longrightarrow>
         set (map fst (overlayMap (snd (loadOverlay create overlayData st))))
           = set (map fst (overlayMap st))
             \<union> {i \<in> set (created_ids result). getOverlayById i chart' \<noteq> None})
     \<and> set (map fst (overlayMap st))
         \<subseteq> set (map fst (overlayMap (snd (loadOverlay create overlayData st))))
     \<and> set (map fst (overlayMap st))
         \<subseteq> set (map fst (overlayMap (snd (loadOverlays J create st))))
     \<and> set (map fst (overlayMap (snd (untrackOverlay J i st))))
         = set (map fst (overlayMap st)) - {i}
     \<and> overlayMap (snd (clearOverlays J st)) = []
     \<and> (set (map fst (overlayMap st)) \<subseteq> id' ` set chart \<longrightarrow>
           widget (trackOverlay i st) = Some chart
         \<and> set (map fst (overlayMap (trackOverlay i st))) \<subseteq> id' ` set chart
         \<and> set (map fst (overlayMap (snd (saveOverlays J st)))) \<subseteq> id' ` set chart
         \<and> widget (snd (untrackOverlay J i st)) = Some chart
         \<and> set (map fst (overlayMap (snd (untrackOverlay J i st)))) \<subseteq> id' ` set chart)"
proof -
  note u = saveOverlays_unfold[OF assms(1,2,3)]
  let ?after = "snd (saveOverlays J st)"
  let ?records = "map serializeOverlay (map snd (overlayMap ?after))"
  have 1: "fst (saveOverlays J st) = Inr ()" by (simp add: u)
  have 2: "widget ?after = Some chart" by (simp add: u assms(3))
  have 3: "map fst (overlayMap ?after) = map fst (overlayMap st)"
    by (simp add: u refresh_keys[OF assms(4)])
  have 4: "overlayMap ?after
         = map (\<lambda>(i, overlay). (i, case getOverlayById i chart of
                                       None \<Rightarrow> overlay
                                     | Some current \<Rightarrow> current)) (overlayMap st)"
    by (simp add: u refresh_map[OF assms(4)])
  have 5: "window ?after = snd (saveOverlaysToLocalStorage J (symbol storage) ?records (window st))"
    by (simp add: u)
  have 6: "\<forall>t ls. accessible (localStorage (window st))
           \<and> stringify J (JArr ?records) = Inr t
           \<and> setItem (getStorageKey (symbol storage)) t (localStorage (window st)) = Inr ls \<longrightarrow>
         getItem (getStorageKey (symbol storage)) (localStorage (window ?after)) = Some t"
    unfolding 5 by (auto simp: save_unfold getItem_setItem)
  have 7: "(\<forall>(i, overlay) \<in> set (overlayMap st). id' overlay = i) \<longrightarrow>
         map (\<lambda>record. get record ''id'') ?records = map JStr (map fst (overlayMap st))"
  proof
    assume k: "\<forall>(i, overlay) \<in> set (overlayMap st). id' overlay = i"
    then have "keyed_by_id (overlayMap st)" using assms(4) by (simp add: keyed_by_id_def)
    then have "keyed_by_id (refresh chart (overlayMap st))" by (rule refresh_keyed)
    then have "\<forall>(i, overlay) \<in> set (overlayMap ?after). id' overlay = i"
      by (simp add: u keyed_by_id_def)
    from serialized_ids[OF this] show
      "map (\<lambda>record. get record ''id'') ?records = map JStr (map fst (overlayMap st))"
      by (simp only: 3)
  qed
  have 8: "map fst (overlayMap (snd (autoSaveTick J st))) = map fst (overlayMap st)"
    using 3 by (simp add: autoSaveTick_def)
  have 9: "set (map fst (overlayMap (trackOverlay i st)))
         = set (map fst (overlayMap st)) \<union> (if getOverlayById i chart = None then {} else {i})"
    by (rule trackOverlay_ids[OF assms(1,3)])
  have 10: "\<forall>overlayCreate result chart'.
           deserializeOverlay overlayData = Inr overlayCreate
           \<and> create overlayCreate chart = (result, chart') \<longrightarrow>
         set (map fst (overlayMap (snd (loadOverlay create overlayData st))))
           = set (map fst (overlayMap st))
             \<union> {i \<in> set (created_ids result). getOverlayById i chart' \<noteq> None}"
    using loadOverlay_ids[where create = create and st = st and overlayData = overlayData, OF assms(3)]
    by blast
  have 11: "set (map fst (overlayMap st))
         \<subseteq> set (map fst (overlayMap (snd (loadOverlay create overlayData st))))"
    by (rule loadOverlay_grows)
  have 12: "set (map fst (overlayMap st))
         \<subseteq> set (map fst (overlayMap (snd (loadOverlays J create st))))"
    by (rule loadOverlays_grows)
  let ?st = "st\<lparr>overlayMap := AList.delete i (overlayMap st)\<rparr>"
  have d: "distinct (map fst (AList.delete i (overlayMap st)))"
    using assms(4) by (rule distinct_delete)
  have "untrackOverlay J i st = saveOverlays J ?st"
    using assms(1) by (simp add: untrackOverlay_def)
  then have ut: "untrackOverlay J i st
      = (Inr (), ?st\<lparr>overlayMap := refresh chart (overlayMap ?st),
                 window := snd (saveOverlaysToLocalStorage J (symbol storage)
                   (map serializeOverlay (map snd (refresh chart (overlayMap ?st)))) (window ?st))\<rparr>)"
    using saveOverlays_unfold[of ?st storage chart J] assms(1,2,3) by simp
  have 13: "set (map fst (overlayMap (snd (untrackOverlay J i st))))
         = set (map fst (overlayMap st)) - {i}"
    using refresh_keys[OF d, of chart] by (simp add: ut delete_keys)
  have wu: "widget (snd (untrackOverlay J i st)) = Some chart"
    by (simp add: ut assms(3))
  have wt: "widget (trackOverlay i st) = Some chart"
    using assms(1,3) by (simp add: trackOverlay_def split: option.splits)
  have "clearOverlays J st = saveOverlays J (st\<lparr>overlayMap := []\<rparr>)"
    using assms(1) by (simp add: clearOverlays_def)
  then have 14: "overlayMap (snd (clearOverlays J st)) = []"
    using saveOverlays_unfold[of "st\<lparr>overlayMap := []\<rparr>" storage chart J] assms(1,2,3)
    by (simp add: refresh_def)
  have 15: "set (map fst (overlayMap st)) \<subseteq> id' ` set chart \<longrightarrow>
           widget (trackOverlay i st) = Some chart
         \<and> set (map fst (overlayMap (trackOverlay i st))) \<subseteq> id' ` set chart
         \<and> set (map fst (overlayMap (snd (saveOverlays J st)))) \<subseteq> id' ` set chart
         \<and> widget (snd (untrackOverlay J i st)) = Some chart
         \<and> set (map fst (overlayMap (snd (untrackOverlay J i st)))) \<subseteq> id' ` set chart"
  proof
    assume sub: "set (map fst (overlayMap st)) \<subseteq> id' ` set chart"
    have "set (map fst (overlayMap (trackOverlay i st))) \<subseteq> id' ` set chart"
      unfolding 9 using sub by (auto dest: getOverlayById_Some)
    moreover have "set (map fst (overlayMap ?after)) \<subseteq> id' ` set chart"
      unfolding 3 by (rule sub)
    moreover have "set (map fst (overlayMap (snd (untrackOverlay J i st)))) \<subseteq> id' ` set chart"
      unfolding 13 using sub by blast
    ultimately show "widget (trackOverlay i st) = Some chart
         \<and> set (map fst (overlayMap (trackOverlay i st))) \<subseteq> id' ` set chart
         \<and> set (map fst (overlayMap (snd (saveOverlays J st)))) \<subseteq> id' ` set chart
         \<and> widget (snd (untrackOverlay J i st)) = Some chart
         \<and> set (map fst (overlayMap (snd (untrackOverlay J i st)))) \<subseteq> id' ` set chart"
      using wt wu by blast
  qed
  from 1 2 3 4 5 6 7 8 9 10 11 12 13 14 15 show ?thesis
    by (intro conjI)
qed

theorem saveOverlays_keeps_tracked_ids_witness:
  "overlayPersistenceEnabled stale_session
   \<and> overlayStorage stale_session = Some (OverlayStorage_new ''AAPL'' None)
   \<and> widget stale_session = Some [line_o1]
   \<and> distinct (map fst (overlayMap stale_session))
   \<and> list_all (\<lambda>(i, overlay). id' overlay = i) (overlayMap stale_session)
   \<and> getOverlayById ''o2'' [line_o1] = None
   \<and> fst (saveOverlays json stale_session) = Inr ()
   \<and> overlayMap (snd (saveOverlays json stale_session)) = [(''o1'', line_o1), (''o2'', segment_o2)]
   \<and> accessible (localStorage (window stale_session))
   \<and> stringify json (JArr [serializeOverlay line_o1, serializeOverlay segment_o2])
       = Inr (json_text (JArr [serializeOverlay line_o1, serializeOverlay segment_o2]))
   \<and> setItem (getStorageKey ''AAPL'')
         (json_text (JArr [serializeOverlay line_o1, serializeOverlay segment_o2]))
         (localStorage (window stale_session))
       = Inr ((localStorage (window stale_session))\<lparr>entries :=
           [(getStorageKey ''AAPL'',
             json_text (JArr [serializeOverlay line_o1, serializeOverlay segment_o2]))]\<rparr>)
   \<and> getItem (getStorageKey ''AAPL'') (localStorage (window (snd (saveOverlays json stale_session))))
       = Some (json_text (JArr [serializeOverlay line_o1, serializeOverlay segment_o2]))
   \<and> map (\<lambda>record. get record ''id'')
         (map serializeOverlay (map snd (overlayMap (snd (saveOverlays json stale_session)))))
       = [JStr ''o1'', JStr ''o2'']
   \<and> set (map fst (overlayMap (trackOverlay ''o2'' stale_session))) = {''o1'', ''o2''}
   \<and> deserializeOverlay (serializeOverlay note_o3 :: int jsval) = Inr (serializeOverlay note_o3)
   \<and> engine_creates_o3 (serializeOverlay note_o3) [line_o1] = (CreatedId ''o3'', [line_o1, note_o3])
   \<and> set (map fst (overlayMap (snd (loadOverlay engine_creates_o3 (serializeOverlay note_o3)
         stale_session)))) = {''o1'', ''o2'', ''o3''}
   \<and> set (map fst (overlayMap (snd (untrackOverlay json ''o2'' stale_session)))) = {''o1''}
   \<and> overlayMap (snd (clearOverlays json stale_session)) = []
   \<and> set (map fst (overlayMap tracked_session)) \<subseteq> id' ` set [line_o1, segment_o2]
   \<and> set (map fst (overlayMap (snd (untrackOverlay json ''o2'' tracked_session))))
       \<subseteq> id' ` set [line_o1, segment_o2]"
proof -
  have h1: "overlayPersistenceEnabled stale_session"
    by (simp add: stale_session_def tracked_session_def)
  have h2: "overlayStorage stale_session = Some (OverlayStorage_new ''AAPL'' None)"
    by (simp add: stale_session_def tracked_session_def)
  have h3: "widget stale_session = Some [line_o1]"
    by (simp add: stale_session_def)
  have h4: "distinct (map fst (overlayMap stale_session))"
    by (simp add: stale_session_def tracked_session_def)
  have m: "overlayMap stale_session = [(''o1'', line_o1), (''o2'', segment_o2)]"
    by (simp add: stale_session_def tracked_session_def)
  have k: "\<forall>(i, overlay) \<in> set (overlayMap stale_session). id' overlay = i"
    by (simp add: m line_o1_def segment_o2_def)
  have k': "list_all (\<lambda>(i, overlay). id' overlay = i) (overlayMap stale_session)"
    using k by (simp add: list_all_iff)
  have g1: "getOverlayById ''o1'' [line_o1] = Some line_o1"
    by (simp add: getOverlayById_def line_o1_def)
  have g2: "getOverlayById ''o2'' [line_o1] = None"
    by (simp add: getOverlayById_def line_o1_def)
  have g3: "getOverlayById ''o3'' [line_o1, note_o3] = Some note_o3"
    by (simp add: getOverlayById_def line_o1_def note_o3_def)
  have sy: "symbol (OverlayStorage_new ''AAPL'' None) = ''AAPL''"
    by (simp add: OverlayStorage_new_def)
  have a: "accessible (localStorage (window stale_session))"
    by (simp add: stale_session_def tracked_session_def fresh_browser_def)
  have tx: "stringify json (JArr [serializeOverlay line_o1, serializeOverlay segment_o2])
       = Inr (json_text (JArr [serializeOverlay line_o1, serializeOverlay segment_o2]))"
    by (simp add: json_def)
  have w: "setItem (getStorageKey ''AAPL'')
         (json_text (JArr [serializeOverlay line_o1, serializeOverlay segment_o2]))
         (localStorage (window stale_session))
       = Inr ((localStorage (window stale_session))\<lparr>entries :=
           [(getStorageKey ''AAPL'',
             json_text (JArr [serializeOverlay line_o1, serializeOverlay segment_o2]))]\<rparr>)"
    by code_simp
  have de: "deserializeOverlay (serializeOverlay note_o3 :: int jsval) = Inr (serializeOverlay note_o3)"
    by (simp add: deserializeOverlay_def serializeOverlay_def)
  have cr: "engine_creates_o3 (serializeOverlay note_o3) [line_o1] = (CreatedId ''o3'', [line_o1, note_o3])"
    by (simp add: engine_creates_o3_def)
  have ci: "created_ids (CreatedId ''o3'') = [''o3'']"
    by (simp add: created_ids_def)
  note t = saveOverlays_keeps_tracked_ids[OF h1 h2 h3 h4, of json "''o2''" "serializeOverlay note_o3" engine_creates_o3]
  have 1: "fst (saveOverlays json stale_session) = Inr ()"
    by (rule t[THEN conjunct1])
  have 2: "overlayMap (snd (saveOverlays json stale_session))
      = [(''o1'', line_o1), (''o2'', segment_o2)]"
    using t[THEN conjunct2, THEN conjunct2, THEN conjunct2, THEN conjunct1] by (simp add: m g1 g2)
  have recs: "map serializeOverlay (map snd (overlayMap (snd (saveOverlays json stale_session))))
      = [serializeOverlay line_o1, serializeOverlay segment_o2]"
    by (simp add: 2)
  note c6 = t[THEN conjunct2, THEN conjunct2, THEN conjunct2, THEN conjunct2, THEN conjunct2, THEN conjunct1]
  have 3: "getItem (getStorageKey ''AAPL'')
        (localStorage (window (snd (saveOverlays json stale_session))))
       = Some (json_text (JArr [serializeOverlay line_o1, serializeOverlay segment_o2]))"
    by (rule c6[unfolded recs sy, rule_format, OF conjI[OF a conjI[OF tx w]]])
  note c7 = t[THEN conjunct2, THEN conjunct2, THEN conjunct2, THEN conjunct2, THEN conjunct2, THEN conjunct2, THEN conjunct1]
  have 4: "map (\<lambda>record. get record ''id'')
         (map serializeOverlay (map snd (overlayMap (snd (saveOverlays json stale_session)))))
       = [JStr ''o1'', JStr ''o2'']"
    using c7[THEN mp, OF k] by (simp only: m list.map fst_conv)
  have 5: "set (map fst (overlayMap (trackOverlay ''o2'' stale_session))) = {''o1'', ''o2''}"
    using t[THEN conjunct2, THEN conjunct2, THEN conjunct2, THEN conjunct2, THEN conjunct2, THEN conjunct2, THEN conjunct2, THEN conjunct2, THEN conjunct1] by (auto simp: m g2)
  note c10 = t[THEN conjunct2, THEN conjunct2, THEN conjunct2, THEN conjunct2, THEN conjunct2, THEN conjunct2, THEN conjunct2, THEN conjunct2, THEN conjunct2, THEN conjunct1]
  have comp: "{i \<in> set (created_ids (CreatedId ''o3'')). getOverlayById i [line_o1, note_o3] \<noteq> None}
      = {''o3''}"
    unfolding ci using g3 by fastforce
  have 6: "set (map fst (overlayMap (snd (loadOverlay engine_creates_o3
         (serializeOverlay note_o3) stale_session)))) = {''o1'', ''o2'', ''o3''}"
    unfolding c10[rule_format, OF conjI[OF de cr]] comp by (simp add: m insert_commute)
  have 7: "set (map fst (overlayMap (snd (untrackOverlay json ''o2'' stale_session)))) = {''o1''}"
    using t[THEN conjunct2, THEN conjunct2, THEN conjunct2, THEN conjunct2, THEN conjunct2, THEN conjunct2, THEN conjunct2, THEN conjunct2, THEN conjunct2, THEN conjunct2, THEN conjunct2, THEN conjunct2, THEN conjunct1] by (auto simp: m)
  have 8: "overlayMap (snd (clearOverlays json stale_session)) = []"
    by (rule t[THEN conjunct2, THEN conjunct2, THEN conjunct2, THEN conjunct2, THEN conjunct2, THEN conjunct2, THEN conjunct2, THEN conjunct2, THEN conjunct2, THEN conjunct2, THEN conjunct2, THEN conjunct2, THEN conjunct2, THEN conjunct1])
  have i1: "overlayPersistenceEnabled tracked_session" by (simp add: tracked_session_def)
  have i2: "overlayStorage tracked_session = Some (OverlayStorage_new ''AAPL'' None)"
    by (simp add: tracked_session_def)
  have i3: "widget tracked_session = Some [line_o1, segment_o2]" by (simp add: tracked_session_def)
  have i4: "distinct (map fst (overlayMap tracked_session))" by (simp add: tracked_session_def)
  have i5: "set (map fst (overlayMap tracked_session)) \<subseteq> id' ` set [line_o1, segment_o2]"
    by (simp add: tracked_session_def line_o1_def segment_o2_def)
  note t2 = saveOverlays_keeps_tracked_ids[OF i1 i2 i3 i4, of json "''o2''"]
  note c15 = t2[THEN conjunct2, THEN conjunct2, THEN conjunct2, THEN conjunct2, THEN conjunct2, THEN conjunct2, THEN conjunct2, THEN conjunct2, THEN conjunct2, THEN conjunct2, THEN conjunct2, THEN conjunct2, THEN conjunct2, THEN conjunct2]
  have 9: "set (map fst (overlayMap (snd (untrackOverlay json ''o2'' tracked_session))))
       \<subseteq> id' ` set [line_o1, segment_o2]"
    by (rule c15[THEN mp, OF i5, THEN conjunct2, THEN conjunct2, THEN conjunct2, THEN conjunct2])
  from h1 h2 h3 h4 k' g2 1 2 a tx w 3 4 5 de cr 6 7 8 i5 9 show ?thesis
    by (intro conjI)
qed

text \<open>
  C9. With persistence on and the component mounted, once \<open>untrackOverlay\<close>
  has run for each removed id (at least one), the records persisted under the
  current symbol are the serialization of the overlays still tracked, and none
  of them has a removed id; where that array survives the JSON round trip,
  loading returns exactly it. This holds right after the last
  \<open>untrackOverlay\<close> returns; no timer tick is involved. Saving is best
  effort: the statement is for a removal during which no storage failure was
  logged to the console. The tracked map is keyed by id, which the component
  maintains.
\<close>

theorem removal_flushes_immediately:
  assumes "overlayPersistenceEnabled st" and "overlayStorage st = Some storage"
    and "widget st = Some chart"
    and "distinct (map fst (overlayMap st))"
    and "\<forall>(i, overlay) \<in> set (overlayMap st). id' overlay = i"
    and "ids \<noteq> []"
    and "forEach (untrackOverlay J) ids st = (r, st')"
    and "console (window st') = console (window st)"
  shows "r = Inr ()
     \<and> (\<exists>t. getItem (getStorageKey (symbol storage)) (localStorage (window st')) = Some t
           \<and> stringify J (JArr (map serializeOverlay (map snd (overlayMap st')))) = Inr t)
     \<and> (\<forall>record \<in> set (map serializeOverlay (map snd (overlayMap st'))).
           \<forall>i \<in> set ids. get record ''id'' \<noteq> JStr i)
     \<and> (json_roundtrips J (JArr (map serializeOverlay (map snd (overlayMap st')))) \<longrightarrow>
           fst (OverlayStorage_load J storage (window st'))
             = Inr (JArr (map serializeOverlay (map snd (overlayMap st')))))"
proof -
  have m: "mounted st storage chart"
    using assms(1-5) by (simp add: mounted_def keyed_by_id_def)
  from forEach_untrack[OF m assms(7)] assms(6,8)
  have r: "r = Inr ()" and m': "mounted st' storage chart"
    and ks: "set (map fst (overlayMap st')) = set (map fst (overlayMap st)) - set ids"
    and p: "persisted J storage st'"
    by blast+
  have "id' overlay \<notin> set ids" if "(k, overlay) \<in> set (overlayMap st')" for k overlay
  proof -
    from m' that have "id' overlay = k" by (auto simp: mounted_def keyed_by_id_def)
    moreover from that have "k \<in> set (map fst (overlayMap st'))" by force
    ultimately show ?thesis using ks by simp
  qed
  then have "\<forall>record \<in> set (map serializeOverlay (map snd (overlayMap st'))).
           \<forall>i \<in> set ids. get record ''id'' \<noteq> JStr i"
    by (auto simp: serialized_id)
  moreover have "fst (OverlayStorage_load J storage (window st'))
             = Inr (JArr (map serializeOverlay (map snd (overlayMap st'))))"
    if "json_roundtrips J (JArr (map serializeOverlay (map snd (overlayMap st'))))"
    using p that
    by (auto simp: persisted_def json_roundtrips_def OverlayStorage_load_def load_unfold
        split: sum.splits)
  ultimately show ?thesis using r p by (auto simp: persisted_def)
qed

theorem removal_flushes_immediately_witness:
  "overlayPersistenceEnabled (three_session\<lparr>widget := Some [note_o3]\<rparr>)
   \<and> distinct (map fst (overlayMap (three_session\<lparr>widget := Some [note_o3]\<rparr>)))
   \<and> list_all (\<lambda>(i, overlay). id' overlay = i) (overlayMap (three_session\<lparr>widget := Some [note_o3]\<rparr>))
   \<and> console (window (snd after_removal)) = console (window (three_session\<lparr>widget := Some [note_o3]\<rparr>))
   \<and> fst after_removal = Inr ()
   \<and> getItem ''klinecharts-pro-overlays-AAPL'' (localStorage (window (snd after_removal)))
       = Some (json_text (JArr [serializeOverlay note_o3]))
   \<and> map (\<lambda>record. get record ''id'') (map serializeOverlay (map snd (overlayMap (snd after_removal))))
       = [JStr ''o3'']
   \<and> json_roundtrips json (JArr (map serializeOverlay (map snd (overlayMap (snd after_removal)))))
   \<and> fst (OverlayStorage_load json (OverlayStorage_new ''AAPL'' (None :: (int, unit) CloudSyncProvider option))
        (window (snd after_removal)))
       = Inr (JArr (map serializeOverlay (map snd (overlayMap (snd after_removal)))))"
proof -
  let ?st = "three_session\<lparr>widget := Some [note_o3]\<rparr>"
  have h1: "overlayPersistenceEnabled ?st"
    by (simp add: three_session_def tracked_session_def)
  have h2: "overlayStorage ?st = Some (OverlayStorage_new ''AAPL'' None)"
    by (simp add: three_session_def tracked_session_def)
  have h3: "widget ?st = Some [note_o3]" by simp
  have h4: "distinct (map fst (overlayMap ?st))"
    by (simp add: three_session_def tracked_session_def)
  have h5: "\<forall>(i, overlay) \<in> set (overlayMap ?st). id' overlay = i"
    by (simp add: three_session_def tracked_session_def line_o1_def segment_o2_def note_o3_def)
  have h5': "list_all (\<lambda>(i, overlay). id' overlay = i) (overlayMap ?st)"
    using h5 by (simp add: list_all_iff)
  have h6: "[''o1'', ''o2''] \<noteq> []" by simp
  have h7: "forEach (untrackOverlay json) [''o1'', ''o2''] ?st = (fst after_removal, snd after_removal)"
    by (simp add: after_removal_eq)
  have h8: "console (window (snd after_removal)) = console (window ?st)"
    by code_simp
  have t: "getItem ''klinecharts-pro-overlays-AAPL'' (localStorage (window (snd after_removal)))
       = Some (json_text (JArr [serializeOverlay note_o3]))"
    by code_simp
  have i: "map (\<lambda>record. get record ''id'') (map serializeOverlay (map snd (overlayMap (snd after_removal))))
       = [JStr ''o3'']"
    by code_simp
  have j: "json_roundtrips json (JArr (map serializeOverlay (map snd (overlayMap (snd after_removal)))))"
    by code_simp
  note f = removal_flushes_immediately[OF h1 h2 h3 h4 h5 h6 h7 h8]
  from f have r: "fst after_removal = Inr ()" by simp
  from f j have l: "fst (OverlayStorage_load json (OverlayStorage_new ''AAPL'' (None :: (int, unit) CloudSyncProvider option))
        (window (snd after_removal)))
       = Inr (JArr (map serializeOverlay (map snd (overlayMap (snd after_removal)))))"
    by simp
  from h1 h4 h5' h8 r t i j l show ?thesis by simp
qed

end
